theory Spec2Isabelle
  imports Main "HOL-Library.Multiset"
begin

section \<open>JavaScript helpers used by the procedures\<close>

text \<open>
  The procedures of \<^verbatim>\<open>packages/orpc/src/procedures/post.ts\<close> and
  \<^verbatim>\<open>packages/orpc/src/procedures/user.ts\<close> are embedded as HOL functions. A
  procedure is its input schema followed by its handler: an input the schema rejects gives
  \<open>ZodError\<close> and the handler does not run. The schemas are modelled in their length
  bounds, numeric ranges and character classes; the format checks \<open>email()\<close>, \<open>url()\<close>
  and \<open>uuid()\<close> belong to the validation library and accept every string here.

  A JavaScript string is a \<open>string\<close>; \<open>toLowerCase\<close> maps the letters \<open>A-Z\<close> and
  leaves every other character alone. A \<open>Date\<close> is its time value, an \<open>int\<close> of
  milliseconds; a JavaScript number that the code only counts with (\<open>page\<close>, \<open>limit\<close>,
  \<open>viewCount\<close>) is an \<open>int\<close>, as it is below \<open>2^53\<close>.
  \<open>crypto.randomUUID()\<close> and \<open>new Date()\<close> are read from the environment, so each
  procedure that calls them takes the fresh identifier and the clock value as arguments.
  A procedure that writes the store returns its result together with the store afterwards.
\<close>

definition toLowerChar :: "char \<Rightarrow> char" where
  "toLowerChar c =
     (case map_of (zip ''ABCDEFGHIJKLMNOPQRSTUVWXYZ'' ''abcdefghijklmnopqrstuvwxyz'') c of
        None \<Rightarrow> c
      | Some l \<Rightarrow> l)"

definition toLowerCase :: "string \<Rightarrow> string" where
  "toLowerCase s = map toLowerChar s"

fun startsWith :: "string \<Rightarrow> string \<Rightarrow> bool" where
  "startsWith s [] = True"
| "startsWith [] (c # cs) = False"
| "startsWith (x # xs) (c # cs) = (x = c \<and> startsWith xs cs)"

text \<open>\<open>s.includes(t)\<close>: \<open>t\<close> occurs in \<open>s\<close> as a contiguous substring.\<close>

fun str_includes :: "string \<Rightarrow> string \<Rightarrow> bool" where
  "str_includes [] t = (t = [])"
| "str_includes (x # xs) t = (startsWith (x # xs) t \<or> str_includes xs t)"

text \<open>
  Truthiness of an optional string, as in \<open>input.slug || ...\<close> and \<open>if (input.slug)\<close>:
  \<open>undefined\<close>, \<open>null\<close> and the empty string are falsy.
\<close>

fun truthy :: "string option \<Rightarrow> bool" where
  "truthy None = False"
| "truthy (Some s) = (s \<noteq> [])"

text \<open>
  A thrown \<open>new Error(message)\<close> keeps its message; a rejection by the input schema is
  \<open>ZodError\<close>.
\<close>

datatype error = ZodError | Error string

section \<open>The in-memory store\<close>

text \<open>
  \<open>mockPosts\<close> and \<open>mockUsers\<close> are JavaScript \<open>Map\<close>s. A \<open>Map\<close> iterates in insertion
  order, \<open>set\<close> on a present key replaces the value in place and on an absent key appends,
  \<open>delete\<close> removes the entry: the store is the list of its entries in insertion order.
\<close>

type_synonym 'v store = "(string \<times> 'v) list"

fun store_get :: "'v store \<Rightarrow> string \<Rightarrow> 'v option" where
  "store_get [] k = None"
| "store_get ((k', v) # es) k = (if k' = k then Some v else store_get es k)"

fun store_set :: "'v store \<Rightarrow> string \<Rightarrow> 'v \<Rightarrow> 'v store" where
  "store_set [] k v = [(k, v)]"
| "store_set ((k', v') # es) k v = (if k' = k then (k, v) # es else (k', v') # store_set es k v)"

fun store_delete :: "'v store \<Rightarrow> string \<Rightarrow> 'v store" where
  "store_delete [] k = []"
| "store_delete ((k', v') # es) k = (if k' = k then store_delete es k else (k', v') # store_delete es k)"

definition store_values :: "'v store \<Rightarrow> 'v list" where
  "store_values st = map snd st"

text \<open>\<open>Array.prototype.find\<close>: the first element that satisfies the predicate.\<close>

fun find_first :: "('a \<Rightarrow> bool) \<Rightarrow> 'a list \<Rightarrow> 'a option" where
  "find_first P [] = None"
| "find_first P (x # xs) = (if P x then Some x else find_first P xs)"

section \<open>Posts\<close>

datatype post_status = Draft | Published | Archived

datatype post_category =
  Technology | Business | Health | Science | Entertainment | Sports | Politics | Other

text \<open>
  The fields of \<open>Post\<close>, each written \<open>post_\<close>\<^emph>\<open>field\<close>. \<open>null\<close> is \<open>None\<close>.
\<close>

record post =
  post_id :: string
  post_title :: string
  post_slug :: string
  post_content :: string
  post_excerpt :: "string option"
  post_authorId :: string
  post_status :: post_status
  post_category :: post_category
  post_tags :: "string list"
  post_featuredImage :: "string option"
  post_published :: bool
  post_publishedAt :: "int option"
  post_viewCount :: int
  post_createdAt :: int
  post_updatedAt :: int

text \<open>\<open>CreatePostInput\<close>: an optional field that is absent is \<open>None\<close>.\<close>

record create_post_input =
  in_title :: string
  in_slug :: "string option"
  in_content :: string
  in_excerpt :: "string option"
  in_category :: "post_category option"
  in_tags :: "string list option"
  in_featuredImage :: "string option"
  in_status :: "post_status option"
  in_published :: "bool option"

subsection \<open>Slug generation\<close>

text \<open>The character class \<open>[a-z0-9]\<close> of the first regular expression.\<close>

definition is_az09 :: "char \<Rightarrow> bool" where
  "is_az09 c = (c \<in> set ''abcdefghijklmnopqrstuvwxyz0123456789'')"

text \<open>
  \<open>.replace(/[^a-z0-9]+/g, '-')\<close>: scanning from the left, a character of the class is
  copied; at any other character the greedy \<open>+\<close> takes the whole run of characters outside
  the class and one hyphen is written for it.
\<close>

function replace_non_alnum :: "string \<Rightarrow> string" where
  "replace_non_alnum [] = []"
| "replace_non_alnum (c # cs) =
     (if is_az09 c then c # replace_non_alnum cs
      else CHR ''-'' # replace_non_alnum (dropWhile (\<lambda>d. \<not> is_az09 d) cs))"
  by pat_completeness auto
termination
  by (relation "measure length") (auto simp: length_dropWhile_le less_Suc_eq_le)

text \<open>
  \<open>.replace(/^-+|-+$/g, '')\<close>: at the start of the string \<open>^-+\<close> removes all the leading
  hyphens. At a later position \<open>^\<close> cannot match, and \<open>-+$\<close> matches at a hyphen when
  nothing but hyphens follows up to the end; that match removes the rest of the string.
\<close>

fun strip_trailing :: "string \<Rightarrow> string" where
  "strip_trailing [] = []"
| "strip_trailing (c # cs) =
     (if c = CHR ''-'' \<and> list_all (\<lambda>d. d = CHR ''-'') cs then []
      else c # strip_trailing cs)"

definition strip_hyphens :: "string \<Rightarrow> string" where
  "strip_hyphens s = strip_trailing (dropWhile (\<lambda>d. d = CHR ''-'') s)"

definition generateSlug :: "string \<Rightarrow> string" where
  "generateSlug title = strip_hyphens (replace_non_alnum (toLowerCase title))"

subsection \<open>Creating a post\<close>

text \<open>
  \<open>createMockPost\<close> takes the input with its \<open>authorId\<close>, and reads the clock and a fresh
  identifier; it writes the post into the store and returns it.
\<close>

definition createMockPost ::
  "post store \<Rightarrow> create_post_input \<Rightarrow> string \<Rightarrow> string \<Rightarrow> int \<Rightarrow> post \<times> post store" where
  "createMockPost st input authorId newId now =
     (let p = \<lparr> post_id = newId,
                post_title = in_title input,
                post_slug = (if truthy (in_slug input) then the (in_slug input)
                             else generateSlug (in_title input)),
                post_content = in_content input,
                post_excerpt = (if truthy (in_excerpt input) then in_excerpt input
                                else Some (take 200 (in_content input) @ ''...'')),
                post_authorId = authorId,
                post_status = (case in_status input of None \<Rightarrow> Draft | Some s \<Rightarrow> s),
                post_category = (case in_category input of None \<Rightarrow> Other | Some c \<Rightarrow> c),
                post_tags = (case in_tags input of None \<Rightarrow> [] | Some ts \<Rightarrow> ts),
                post_featuredImage = (if truthy (in_featuredImage input)
                                      then in_featuredImage input else None),
                post_published = (case in_published input of None \<Rightarrow> False | Some b \<Rightarrow> b),
                post_publishedAt = (if in_published input = Some True then Some now else None),
                post_viewCount = 0,
                post_createdAt = now,
                post_updatedAt = now \<rparr>
      in (p, store_set st (post_id p) p))"

text \<open>
  \<open>CreatePostInputSchema\<close>: the length bounds and the slug's character class. The
  \<open>url()\<close> check of \<open>featuredImage\<close> belongs to the validation library and is not
  modelled: every string passes it here.
\<close>

definition is_slug_char :: "char \<Rightarrow> bool" where
  "is_slug_char c = (is_az09 c \<or> c = CHR ''-'')"

definition valid_slug :: "string \<Rightarrow> bool" where
  "valid_slug s = (3 \<le> length s \<and> length s \<le> 200 \<and> list_all is_slug_char s)"

definition valid_tags :: "string list \<Rightarrow> bool" where
  "valid_tags ts = list_all (\<lambda>t. 1 \<le> length t \<and> length t \<le> 50) ts"

definition CreatePostInputSchema :: "create_post_input \<Rightarrow> bool" where
  "CreatePostInputSchema input =
     (3 \<le> length (in_title input) \<and> length (in_title input) \<le> 200 \<and>
      (case in_slug input of None \<Rightarrow> True | Some s \<Rightarrow> valid_slug s) \<and>
      10 \<le> length (in_content input) \<and>
      (case in_excerpt input of None \<Rightarrow> True | Some e \<Rightarrow> length e \<le> 500) \<and>
      (case in_tags input of None \<Rightarrow> True | Some ts \<Rightarrow> valid_tags ts))"

text \<open>
  \<open>createPost\<close>: the result and the store afterwards. The mock author identifier is the
  first \<open>randomUUID()\<close> read, the post's own identifier the second.
\<close>

definition createPost ::
  "post store \<Rightarrow> create_post_input \<Rightarrow> string \<Rightarrow> string \<Rightarrow> int \<Rightarrow> (error + post) \<times> post store" where
  "createPost st input authorId newId now =
     (if \<not> CreatePostInputSchema input then (Inl ZodError, st)
      else if truthy (in_slug input) \<and>
              find_first (\<lambda>p. Some (post_slug p) = in_slug input) (store_values st) \<noteq> None
      then (Inl (Error ''Slug already exists''), st)
      else (let (p, st') = createMockPost st input authorId newId now in (Inr p, st')))"

subsection \<open>Reading, updating, deleting and publishing a post\<close>

text \<open>
  \<open>IdParamSchema\<close> takes a non-empty string or a positive integer, and every handler
  reads \<open>String(input.id)\<close>: the identifier is modelled after that conversion, as a
  string that must not be empty. The \<open>uuid()\<close> check on the identifier of
  \<open>updatePost\<close> and \<open>publishPost\<close> belongs to the validation library and is not
  modelled.
\<close>

definition IdParamSchema :: "string \<Rightarrow> bool" where
  "IdParamSchema i = (1 \<le> length i)"

record author =
  author_id :: string
  author_name :: string
  author_avatar :: "string option"

text \<open>The public post of \<open>getPost\<close> and \<open>listPosts\<close>, each field written \<open>pub_\<close>\<^emph>\<open>field\<close>.\<close>

record public_post =
  pub_id :: string
  pub_title :: string
  pub_slug :: string
  pub_content :: string
  pub_excerpt :: "string option"
  pub_authorId :: string
  pub_category :: post_category
  pub_tags :: "string list"
  pub_featuredImage :: "string option"
  pub_published :: bool
  pub_publishedAt :: "int option"
  pub_createdAt :: int
  pub_updatedAt :: int
  pub_author :: author

definition toPublicPost :: "post \<Rightarrow> public_post" where
  "toPublicPost p =
     \<lparr> pub_id = post_id p,
       pub_title = post_title p,
       pub_slug = post_slug p,
       pub_content = post_content p,
       pub_excerpt = post_excerpt p,
       pub_authorId = post_authorId p,
       pub_category = post_category p,
       pub_tags = post_tags p,
       pub_featuredImage = post_featuredImage p,
       pub_published = post_published p,
       pub_publishedAt = post_publishedAt p,
       pub_createdAt = post_createdAt p,
       pub_updatedAt = post_updatedAt p,
       pub_author = \<lparr> author_id = post_authorId p, author_name = ''John Doe'',
                      author_avatar = None \<rparr> \<rparr>"

text \<open>
  \<open>getPost\<close> increments \<open>viewCount\<close> on the object the map holds under the requested
  key, then stores that object under its own \<open>id\<close>.
\<close>

definition getPost :: "post store \<Rightarrow> string \<Rightarrow> (error + public_post) \<times> post store" where
  "getPost st i =
     (if \<not> IdParamSchema i then (Inl ZodError, st)
      else case store_get st i of
        None \<Rightarrow> (Inl (Error ''Post not found''), st)
      | Some p \<Rightarrow>
          (let p' = p\<lparr>post_viewCount := post_viewCount p + 1\<rparr>;
               st' = store_set (store_set st i p') (post_id p') p'
           in (Inr (toPublicPost p'), st')))"

text \<open>
  \<open>UpdatePostInput\<close>: every field is optional; \<open>excerpt\<close> and \<open>featuredImage\<close> may
  also be given as \<open>null\<close>, which is \<open>Some None\<close>.
\<close>

record update_post_input =
  upd_title :: "string option"
  upd_slug :: "string option"
  upd_content :: "string option"
  upd_excerpt :: "string option option"
  upd_category :: "post_category option"
  upd_tags :: "string list option"
  upd_featuredImage :: "string option option"
  upd_status :: "post_status option"
  upd_published :: "bool option"

definition UpdatePostInputSchema :: "update_post_input \<Rightarrow> bool" where
  "UpdatePostInputSchema d =
     ((case upd_title d of None \<Rightarrow> True | Some t \<Rightarrow> 3 \<le> length t \<and> length t \<le> 200) \<and>
      (case upd_slug d of None \<Rightarrow> True | Some s \<Rightarrow> valid_slug s) \<and>
      (case upd_content d of None \<Rightarrow> True | Some c \<Rightarrow> 10 \<le> length c) \<and>
      (case upd_excerpt d of Some (Some e) \<Rightarrow> length e \<le> 500 | _ \<Rightarrow> True) \<and>
      (case upd_tags d of None \<Rightarrow> True | Some ts \<Rightarrow> valid_tags ts))"

text \<open>The object spread \<open>{...post, ...input.data}\<close>: a field present in the data wins.\<close>

definition spread :: "post \<Rightarrow> update_post_input \<Rightarrow> post" where
  "spread p d =
     p\<lparr> post_title := (case upd_title d of None \<Rightarrow> post_title p | Some t \<Rightarrow> t),
        post_slug := (case upd_slug d of None \<Rightarrow> post_slug p | Some s \<Rightarrow> s),
        post_content := (case upd_content d of None \<Rightarrow> post_content p | Some c \<Rightarrow> c),
        post_excerpt := (case upd_excerpt d of None \<Rightarrow> post_excerpt p | Some e \<Rightarrow> e),
        post_category := (case upd_category d of None \<Rightarrow> post_category p | Some c \<Rightarrow> c),
        post_tags := (case upd_tags d of None \<Rightarrow> post_tags p | Some ts \<Rightarrow> ts),
        post_featuredImage :=
          (case upd_featuredImage d of None \<Rightarrow> post_featuredImage p | Some f \<Rightarrow> f),
        post_status := (case upd_status d of None \<Rightarrow> post_status p | Some s \<Rightarrow> s),
        post_published := (case upd_published d of None \<Rightarrow> post_published p | Some b \<Rightarrow> b) \<rparr>"

definition updatePost ::
  "post store \<Rightarrow> string \<Rightarrow> update_post_input \<Rightarrow> int \<Rightarrow> (error + post) \<times> post store" where
  "updatePost st i d now =
     (if \<not> UpdatePostInputSchema d then (Inl ZodError, st)
      else case store_get st i of
        None \<Rightarrow> (Inl (Error ''Post not found''), st)
      | Some p \<Rightarrow>
          if truthy (upd_slug d) \<and> upd_slug d \<noteq> Some (post_slug p) \<and>
             find_first (\<lambda>q. Some (post_slug q) = upd_slug d) (store_values st) \<noteq> None
          then (Inl (Error ''Slug already exists''), st)
          else
            (let updatedPost = (spread p d)
                   \<lparr> post_updatedAt := now,
                     post_publishedAt :=
                       (if upd_published d = Some True \<and> \<not> post_published p then Some now
                        else post_publishedAt p) \<rparr>
             in (Inr updatedPost, store_set st i updatedPost)))"

datatype ack = Success

definition deletePost :: "post store \<Rightarrow> string \<Rightarrow> (error + ack) \<times> post store" where
  "deletePost st i =
     (if \<not> IdParamSchema i then (Inl ZodError, st)
      else case store_get st i of
        None \<Rightarrow> (Inl (Error ''Post not found''), st)
      | Some p \<Rightarrow> (Inr Success, store_delete st i))"

text \<open>
  \<open>publishPost\<close>: \<open>post.publishedAt || now\<close> keeps a timestamp once there is one (a
  \<open>Date\<close> object is always truthy).
\<close>

definition publishPost ::
  "post store \<Rightarrow> string \<Rightarrow> bool \<Rightarrow> int \<Rightarrow> (error + post) \<times> post store" where
  "publishPost st i published now =
     (case store_get st i of
        None \<Rightarrow> (Inl (Error ''Post not found''), st)
      | Some p \<Rightarrow>
          (let updatedPost = p
                 \<lparr> post_published := published,
                   post_publishedAt :=
                     (if published
                      then (case post_publishedAt p of None \<Rightarrow> Some now | Some t \<Rightarrow> Some t)
                      else post_publishedAt p),
                   post_status := (if published then Published else Draft),
                   post_updatedAt := now \<rparr>
           in (Inr updatedPost, store_set st i updatedPost)))"

section \<open>Filtering, sorting and paginating\<close>

subsection \<open>The values a sort key can have, and their comparison\<close>

text \<open>
  \<open>a[sortBy]\<close> is read with type \<open>any\<close>: it may be a string, a number, a boolean, a
  \<open>Date\<close>, an array of strings (the tags), \<open>null\<close>, or \<open>undefined\<close> when the record has
  no such field.
\<close>

datatype jsval =
  JUndefined | JNull | JBool bool | JNum int | JStr string | JDate int | JArr "string list"

text \<open>Strings are compared code unit by code unit.\<close>

fun str_less :: "string \<Rightarrow> string \<Rightarrow> bool" where
  "str_less [] [] = False"
| "str_less [] (y # ys) = True"
| "str_less (x # xs) [] = False"
| "str_less (x # xs) (y # ys) =
     ((of_char x :: nat) < of_char y \<or> (x = y \<and> str_less xs ys))"

fun join_comma :: "string list \<Rightarrow> string" where
  "join_comma [] = []"
| "join_comma [t] = t"
| "join_comma (t # u # ts) = t @ '','' @ join_comma (u # ts)"

text \<open>\<open>ToPrimitive\<close>: a \<open>Date\<close> gives its time value, an array its elements joined by commas.\<close>

fun ToPrimitive :: "jsval \<Rightarrow> jsval" where
  "ToPrimitive (JDate t) = JNum t"
| "ToPrimitive (JArr ts) = JStr (join_comma ts)"
| "ToPrimitive v = v"

text \<open>
  \<open>StringToNumber\<close> is reached only when a string is compared with a value that is not a
  string. It is modelled for the literals that are white space around an optionally signed
  run of decimal digits; the empty literal is \<open>0\<close>. The fractional, exponent, radix-prefixed
  and \<open>Infinity\<close> forms are not modelled and read as \<open>NaN\<close>, which is \<open>None\<close>.
\<close>

definition is_space :: "char \<Rightarrow> bool" where
  "is_space c = (c \<in> set [CHR '' '', CHR 0x09, CHR 0x0A, CHR 0x0B, CHR 0x0C, CHR 0x0D])"

definition digit_value :: "char \<Rightarrow> int option" where
  "digit_value c = map_of (zip ''0123456789'' [0, 1, 2, 3, 4, 5, 6, 7, 8, 9]) c"

fun digits_value :: "int \<Rightarrow> string \<Rightarrow> int option" where
  "digits_value acc [] = Some acc"
| "digits_value acc (c # cs) =
     (case digit_value c of None \<Rightarrow> None | Some d \<Rightarrow> digits_value (10 * acc + d) cs)"

definition unsigned_value :: "string \<Rightarrow> int option" where
  "unsigned_value ds = (if ds = [] then None else digits_value 0 ds)"

definition StringToNumber :: "string \<Rightarrow> int option" where
  "StringToNumber s =
     (let t = rev (dropWhile is_space (rev (dropWhile is_space s)))
      in case t of
           [] \<Rightarrow> Some 0
         | c # cs \<Rightarrow>
             if c = CHR ''+'' then unsigned_value cs
             else if c = CHR ''-'' then map_option uminus (unsigned_value cs)
             else unsigned_value t)"

fun ToNumber :: "jsval \<Rightarrow> int option" where
  "ToNumber JUndefined = None"
| "ToNumber JNull = Some 0"
| "ToNumber (JBool b) = Some (if b then 1 else 0)"
| "ToNumber (JNum n) = Some n"
| "ToNumber (JStr s) = StringToNumber s"
| "ToNumber (JDate t) = Some t"
| "ToNumber (JArr ts) = StringToNumber (join_comma ts)"

text \<open>
  \<open>a > b\<close>: two strings are compared as strings, anything else as numbers, and a
  comparison with \<open>NaN\<close> is false.
\<close>

definition js_gt :: "jsval \<Rightarrow> jsval \<Rightarrow> bool" where
  "js_gt a b =
     (case (ToPrimitive a, ToPrimitive b) of
        (JStr s, JStr t) \<Rightarrow> str_less t s
      | (pa, pb) \<Rightarrow>
          (case (ToNumber pa, ToNumber pb) of
             (Some x, Some y) \<Rightarrow> y < x
           | _ \<Rightarrow> False))"

subsection \<open>Sorting\<close>

datatype sort_order = Asc | Desc

text \<open>
  The comparator handed to \<open>sort\<close>, on the two key values:
  \<open>aVal > bVal ? order : -order\<close> with \<open>order = sortOrder === 'asc' ? 1 : -1\<close>.
\<close>

definition compareFn :: "sort_order \<Rightarrow> jsval \<Rightarrow> jsval \<Rightarrow> int" where
  "compareFn sortOrder aVal bVal =
     (let order = (if sortOrder = Asc then 1 else -1)
      in if js_gt aVal bVal then order else - order)"

text \<open>
  \<open>Array.prototype.sort(comparefn)\<close>. ECMAScript fixes the result only when the
  comparator is consistent; the model is an insertion sort that asks
  \<open>comparefn(pivot, element)\<close> and puts the pivot in front of the first element it is
  answered to be smaller than.
\<close>

fun insert_by :: "('a \<Rightarrow> 'a \<Rightarrow> int) \<Rightarrow> 'a \<Rightarrow> 'a list \<Rightarrow> 'a list" where
  "insert_by cmp x [] = [x]"
| "insert_by cmp x (e # es) = (if cmp x e < 0 then x # e # es else e # insert_by cmp x es)"

definition array_sort :: "('a \<Rightarrow> 'a \<Rightarrow> int) \<Rightarrow> 'a list \<Rightarrow> 'a list" where
  "array_sort cmp xs = foldl (\<lambda>sorted x. insert_by cmp x sorted) [] xs"

subsection \<open>Pagination\<close>

record pagination_input =
  pg_page :: "int option"
  pg_limit :: "int option"
  pg_sortBy :: "string option"
  pg_sortOrder :: "sort_order option"

text \<open>\<open>PaginationInputSchema\<close>: \<open>page\<close> is a positive integer, \<open>limit\<close> one of at most 100.\<close>

definition PaginationInputSchema :: "pagination_input \<Rightarrow> bool" where
  "PaginationInputSchema pg =
     ((case pg_page pg of None \<Rightarrow> True | Some n \<Rightarrow> 0 < n) \<and>
      (case pg_limit pg of None \<Rightarrow> True | Some l \<Rightarrow> 0 < l \<and> l \<le> 100))"

definition no_pagination :: pagination_input where
  "no_pagination = \<lparr> pg_page = None, pg_limit = None, pg_sortBy = None, pg_sortOrder = None \<rparr>"

text \<open>
  \<open>xs.slice(start, fin)\<close>: a negative index counts from the end, and both indices are
  clamped to the array.
\<close>

definition slice :: "'a list \<Rightarrow> int \<Rightarrow> int \<Rightarrow> 'a list" where
  "slice xs start fin =
     (let len = int (length xs);
          k = (if start < 0 then max (len + start) 0 else min start len);
          final = (if fin < 0 then max (len + fin) 0 else min fin len)
      in take (nat (final - k)) (drop (nat k) xs))"

text \<open>
  \<open>Math.ceil(total / limit)\<close> for a positive \<open>limit\<close>: the quotient of an array length by
  a limit of at most 100 is exact enough in floating point for the ceiling to be the
  integer one.
\<close>

definition ceil_div :: "int \<Rightarrow> int \<Rightarrow> int" where
  "ceil_div tot limit = - ((- tot) div limit)"

text \<open>The pagination output, each field written \<open>out_\<close>\<^emph>\<open>field\<close>.\<close>

record 'a pagination_output =
  out_data :: "'a list"
  out_total :: int
  out_page :: int
  out_totalPages :: int
  out_hasNextPage :: bool
  out_hasPreviousPage :: bool

text \<open>
  The common tail of \<open>listPosts\<close> and \<open>listUsers\<close>: slice the sorted records, convert
  the slice to public records, and report the counts.
\<close>

definition paginate :: "('a \<Rightarrow> 'b) \<Rightarrow> 'a list \<Rightarrow> int \<Rightarrow> int \<Rightarrow> 'b pagination_output" where
  "paginate toPublic records page limit =
     (let tot = int (length records);
          totalPages = ceil_div tot limit;
          start = (page - 1) * limit;
          paginated = slice records start (start + limit)
      in \<lparr> out_data = map toPublic paginated,
           out_total = tot,
           out_page = page,
           out_totalPages = totalPages,
           out_hasNextPage = (page < totalPages),
           out_hasPreviousPage = (page > 1) \<rparr>)"

text \<open>\<open>if (cond) xs = xs.filter(pred)\<close>.\<close>

definition filter_if :: "bool \<Rightarrow> ('a \<Rightarrow> bool) \<Rightarrow> 'a list \<Rightarrow> 'a list" where
  "filter_if cond pred xs = (if cond then filter pred xs else xs)"

text \<open>
  A date in a filter is a \<open>Date\<close> or a string given to \<open>new Date\<close>, so it may be an
  invalid date, whose time value is \<open>NaN\<close>.
\<close>

datatype filter_date = ValidDate int | InvalidDate

fun date_ge :: "int \<Rightarrow> filter_date \<Rightarrow> bool" where
  "date_ge t (ValidDate d) = (d \<le> t)"
| "date_ge t InvalidDate = False"

fun date_le :: "int \<Rightarrow> filter_date \<Rightarrow> bool" where
  "date_le t (ValidDate d) = (t \<le> d)"
| "date_le t InvalidDate = False"

subsection \<open>Listing posts\<close>

record post_filters =
  pf_search :: "string option"
  pf_authorId :: "string option"
  pf_status :: "post_status option"
  pf_category :: "post_category option"
  pf_tags :: "string list option"
  pf_published :: "bool option"
  pf_publishedAfter :: "filter_date option"
  pf_publishedBefore :: "filter_date option"

definition no_post_filters :: post_filters where
  "no_post_filters =
     \<lparr> pf_search = None, pf_authorId = None, pf_status = None, pf_category = None,
       pf_tags = None, pf_published = None, pf_publishedAfter = None,
       pf_publishedBefore = None \<rparr>"

definition filterPosts :: "post_filters \<Rightarrow> post list \<Rightarrow> post list" where
  "filterPosts filters posts =
     (let search = toLowerCase (the (pf_search filters));
          posts = filter_if (truthy (pf_search filters))
                    (\<lambda>p. str_includes (toLowerCase (post_title p)) search \<or>
                         str_includes (toLowerCase (post_content p)) search \<or>
                         (truthy (post_excerpt p) \<and>
                          str_includes (toLowerCase (the (post_excerpt p))) search)) posts;
          posts = filter_if (truthy (pf_authorId filters))
                    (\<lambda>p. Some (post_authorId p) = pf_authorId filters) posts;
          posts = filter_if (pf_status filters \<noteq> None)
                    (\<lambda>p. Some (post_status p) = pf_status filters) posts;
          posts = filter_if (pf_category filters \<noteq> None)
                    (\<lambda>p. Some (post_category p) = pf_category filters) posts;
          posts = filter_if (pf_tags filters \<noteq> None \<and> the (pf_tags filters) \<noteq> [])
                    (\<lambda>p. list_ex (\<lambda>tag. tag \<in> set (post_tags p)) (the (pf_tags filters))) posts;
          posts = filter_if (pf_published filters \<noteq> None)
                    (\<lambda>p. Some (post_published p) = pf_published filters) posts;
          posts = filter_if (pf_publishedAfter filters \<noteq> None)
                    (\<lambda>p. post_publishedAt p \<noteq> None \<and>
                         date_ge (the (post_publishedAt p)) (the (pf_publishedAfter filters))) posts;
          posts = filter_if (pf_publishedBefore filters \<noteq> None)
                    (\<lambda>p. post_publishedAt p \<noteq> None \<and>
                         date_le (the (post_publishedAt p)) (the (pf_publishedBefore filters))) posts
      in posts)"

fun post_status_name :: "post_status \<Rightarrow> string" where
  "post_status_name Draft = ''draft''"
| "post_status_name Published = ''published''"
| "post_status_name Archived = ''archived''"

fun post_category_name :: "post_category \<Rightarrow> string" where
  "post_category_name Technology = ''technology''"
| "post_category_name Business = ''business''"
| "post_category_name Health = ''health''"
| "post_category_name Science = ''science''"
| "post_category_name Entertainment = ''entertainment''"
| "post_category_name Sports = ''sports''"
| "post_category_name Politics = ''politics''"
| "post_category_name Other = ''other''"

fun opt_str :: "string option \<Rightarrow> jsval" where
  "opt_str None = JNull"
| "opt_str (Some s) = JStr s"

text \<open>\<open>a[sortBy as keyof Post]\<close>: the value of the named field, \<open>undefined\<close> for any other name.\<close>

definition post_field :: "string \<Rightarrow> post \<Rightarrow> jsval" where
  "post_field name p =
     (if name = ''id'' then JStr (post_id p)
      else if name = ''title'' then JStr (post_title p)
      else if name = ''slug'' then JStr (post_slug p)
      else if name = ''content'' then JStr (post_content p)
      else if name = ''excerpt'' then opt_str (post_excerpt p)
      else if name = ''authorId'' then JStr (post_authorId p)
      else if name = ''status'' then JStr (post_status_name (post_status p))
      else if name = ''category'' then JStr (post_category_name (post_category p))
      else if name = ''tags'' then JArr (post_tags p)
      else if name = ''featuredImage'' then opt_str (post_featuredImage p)
      else if name = ''published'' then JBool (post_published p)
      else if name = ''publishedAt'' then
        (case post_publishedAt p of None \<Rightarrow> JNull | Some t \<Rightarrow> JDate t)
      else if name = ''viewCount'' then JNum (post_viewCount p)
      else if name = ''createdAt'' then JDate (post_createdAt p)
      else if name = ''updatedAt'' then JDate (post_updatedAt p)
      else JUndefined)"

definition sortPosts :: "string \<Rightarrow> sort_order \<Rightarrow> post list \<Rightarrow> post list" where
  "sortPosts sortBy sortOrder posts =
     array_sort (\<lambda>a b. compareFn sortOrder (post_field sortBy a) (post_field sortBy b)) posts"

record list_posts_input =
  lp_pagination :: "pagination_input option"
  lp_filters :: "post_filters option"

definition listPosts :: "post store \<Rightarrow> list_posts_input \<Rightarrow> error + public_post pagination_output" where
  "listPosts st input =
     (let pagination = (case lp_pagination input of None \<Rightarrow> no_pagination | Some pg \<Rightarrow> pg);
          filters = (case lp_filters input of None \<Rightarrow> no_post_filters | Some f \<Rightarrow> f)
      in if \<not> PaginationInputSchema pagination then Inl ZodError
         else
           (let page = (case pg_page pagination of None \<Rightarrow> 1 | Some n \<Rightarrow> n);
                limit = (case pg_limit pagination of None \<Rightarrow> 20 | Some l \<Rightarrow> l);
                sortBy = (case pg_sortBy pagination of None \<Rightarrow> ''createdAt'' | Some f \<Rightarrow> f);
                sortOrder = (case pg_sortOrder pagination of None \<Rightarrow> Desc | Some so \<Rightarrow> so);
                posts = filterPosts filters (store_values st);
                posts = sortPosts sortBy sortOrder posts
            in Inr (paginate toPublicPost posts page limit)))"

section \<open>Users\<close>

datatype user_role = Admin | User | Moderator

datatype user_status = Active | Inactive | Suspended

text \<open>
  The fields of \<open>User\<close>, each written \<open>user_\<close>\<^emph>\<open>field\<close>. An absent \<open>username\<close>
  (\<open>undefined\<close>) and a \<open>null\<close> avatar are \<open>None\<close>.
\<close>

record user =
  user_id :: string
  user_email :: string
  user_name :: string
  user_username :: "string option"
  user_avatar :: "string option"
  user_role :: user_role
  user_status :: user_status
  user_createdAt :: int
  user_updatedAt :: int

record create_user_input =
  cu_email :: string
  cu_password :: string
  cu_name :: string
  cu_username :: "string option"
  cu_avatar :: "string option"
  cu_role :: "user_role option"

definition createMockUser :: "user store \<Rightarrow> create_user_input \<Rightarrow> string \<Rightarrow> int \<Rightarrow> user \<times> user store" where
  "createMockUser st input newId now =
     (let u = \<lparr> user_id = newId,
                user_email = cu_email input,
                user_name = cu_name input,
                user_username = cu_username input,
                user_avatar = (if truthy (cu_avatar input) then cu_avatar input else None),
                user_role = (case cu_role input of None \<Rightarrow> User | Some r \<Rightarrow> r),
                user_status = Active,
                user_createdAt = now,
                user_updatedAt = now \<rparr>
      in (u, store_set st (user_id u) u))"

text \<open>
  \<open>CreateUserInputSchema\<close>. The password expression
  \<open>/^(?=.*[a-z])(?=.*[A-Z])(?=.*\d)/\<close> looks for a lower-case letter, an upper-case
  letter and a digit; \<open>.\<close> does not cross a line terminator, so it looks in the first
  line. The user name is \<open>/^[a-zA-Z0-9_-]+$/\<close>. The \<open>email()\<close> and \<open>url()\<close> checks
  belong to the validation library and are not modelled: every string passes them here.
\<close>

definition is_upper :: "char \<Rightarrow> bool" where
  "is_upper c = (c \<in> set ''ABCDEFGHIJKLMNOPQRSTUVWXYZ'')"

definition is_lower :: "char \<Rightarrow> bool" where
  "is_lower c = (c \<in> set ''abcdefghijklmnopqrstuvwxyz'')"

definition is_digit :: "char \<Rightarrow> bool" where
  "is_digit c = (c \<in> set ''0123456789'')"

definition valid_password :: "string \<Rightarrow> bool" where
  "valid_password pw =
     (let line = takeWhile (\<lambda>c. c \<noteq> CHR 0x0A \<and> c \<noteq> CHR 0x0D) pw
      in 8 \<le> length pw \<and> length pw \<le> 100 \<and>
         list_ex is_lower line \<and> list_ex is_upper line \<and> list_ex is_digit line)"

definition valid_username :: "string \<Rightarrow> bool" where
  "valid_username n =
     (3 \<le> length n \<and> length n \<le> 30 \<and>
      list_all (\<lambda>c. is_lower c \<or> is_upper c \<or> is_digit c \<or> c = CHR ''_'' \<or> c = CHR ''-'') n)"

definition CreateUserInputSchema :: "create_user_input \<Rightarrow> bool" where
  "CreateUserInputSchema input =
     (valid_password (cu_password input) \<and>
      2 \<le> length (cu_name input) \<and> length (cu_name input) \<le> 100 \<and>
      (case cu_username input of None \<Rightarrow> True | Some n \<Rightarrow> valid_username n))"

text \<open>The public user of \<open>getUser\<close>, \<open>getUserByEmail\<close> and \<open>listUsers\<close>.\<close>

record public_user =
  pu_id :: string
  pu_name :: string
  pu_username :: "string option"
  pu_avatar :: "string option"
  pu_role :: user_role
  pu_createdAt :: int
  pu_updatedAt :: int

definition toPublicUser :: "user \<Rightarrow> public_user" where
  "toPublicUser u =
     \<lparr> pu_id = user_id u,
       pu_name = user_name u,
       pu_username = user_username u,
       pu_avatar = user_avatar u,
       pu_role = user_role u,
       pu_createdAt = user_createdAt u,
       pu_updatedAt = user_updatedAt u \<rparr>"

definition getUser :: "user store \<Rightarrow> string \<Rightarrow> error + public_user" where
  "getUser st i =
     (if \<not> IdParamSchema i then Inl ZodError
      else case store_get st i of
        None \<Rightarrow> Inl (Error ''User not found'')
      | Some u \<Rightarrow> Inr (toPublicUser u))"

text \<open>\<open>getUserByEmail\<close> answers \<open>null\<close>, which is \<open>None\<close>, when no user has the address.\<close>

definition getUserByEmail :: "user store \<Rightarrow> string \<Rightarrow> error + public_user option" where
  "getUserByEmail st email =
     (case find_first (\<lambda>u. user_email u = email) (store_values st) of
        None \<Rightarrow> Inr None
      | Some u \<Rightarrow> Inr (Some (toPublicUser u)))"

definition createUser ::
  "user store \<Rightarrow> create_user_input \<Rightarrow> string \<Rightarrow> int \<Rightarrow> (error + user) \<times> user store" where
  "createUser st input newId now =
     (if \<not> CreateUserInputSchema input then (Inl ZodError, st)
      else if find_first (\<lambda>u. user_email u = cu_email input) (store_values st) \<noteq> None
      then (Inl (Error ''Email already exists''), st)
      else if truthy (cu_username input) \<and>
              find_first (\<lambda>u. user_username u = cu_username input) (store_values st) \<noteq> None
      then (Inl (Error ''Username already taken''), st)
      else (let (u, st') = createMockUser st input newId now in (Inr u, st')))"

definition deleteUser :: "user store \<Rightarrow> string \<Rightarrow> (error + ack) \<times> user store" where
  "deleteUser st i =
     (if \<not> IdParamSchema i then (Inl ZodError, st)
      else case store_get st i of
        None \<Rightarrow> (Inl (Error ''User not found''), st)
      | Some u \<Rightarrow> (Inr Success, store_delete st i))"

subsection \<open>Listing users\<close>

record user_filters =
  uf_search :: "string option"
  uf_role :: "user_role option"
  uf_status :: "user_status option"
  uf_createdAfter :: "filter_date option"
  uf_createdBefore :: "filter_date option"

definition no_user_filters :: user_filters where
  "no_user_filters =
     \<lparr> uf_search = None, uf_role = None, uf_status = None, uf_createdAfter = None,
       uf_createdBefore = None \<rparr>"

definition filterUsers :: "user_filters \<Rightarrow> user list \<Rightarrow> user list" where
  "filterUsers filters users =
     (let search = toLowerCase (the (uf_search filters));
          users = filter_if (truthy (uf_search filters))
                    (\<lambda>u. str_includes (toLowerCase (user_name u)) search \<or>
                         str_includes (toLowerCase (user_email u)) search \<or>
                         (truthy (user_username u) \<and>
                          str_includes (toLowerCase (the (user_username u))) search)) users;
          users = filter_if (uf_role filters \<noteq> None)
                    (\<lambda>u. Some (user_role u) = uf_role filters) users;
          users = filter_if (uf_status filters \<noteq> None)
                    (\<lambda>u. Some (user_status u) = uf_status filters) users;
          users = filter_if (uf_createdAfter filters \<noteq> None)
                    (\<lambda>u. date_ge (user_createdAt u) (the (uf_createdAfter filters))) users;
          users = filter_if (uf_createdBefore filters \<noteq> None)
                    (\<lambda>u. date_le (user_createdAt u) (the (uf_createdBefore filters))) users
      in users)"

fun user_role_name :: "user_role \<Rightarrow> string" where
  "user_role_name Admin = ''admin''"
| "user_role_name User = ''user''"
| "user_role_name Moderator = ''moderator''"

fun user_status_name :: "user_status \<Rightarrow> string" where
  "user_status_name Active = ''active''"
| "user_status_name Inactive = ''inactive''"
| "user_status_name Suspended = ''suspended''"

definition user_field :: "string \<Rightarrow> user \<Rightarrow> jsval" where
  "user_field name u =
     (if name = ''id'' then JStr (user_id u)
      else if name = ''email'' then JStr (user_email u)
      else if name = ''name'' then JStr (user_name u)
      else if name = ''username'' then
        (case user_username u of None \<Rightarrow> JUndefined | Some n \<Rightarrow> JStr n)
      else if name = ''avatar'' then opt_str (user_avatar u)
      else if name = ''role'' then JStr (user_role_name (user_role u))
      else if name = ''status'' then JStr (user_status_name (user_status u))
      else if name = ''createdAt'' then JDate (user_createdAt u)
      else if name = ''updatedAt'' then JDate (user_updatedAt u)
      else JUndefined)"

definition sortUsers :: "string \<Rightarrow> sort_order \<Rightarrow> user list \<Rightarrow> user list" where
  "sortUsers sortBy sortOrder users =
     array_sort (\<lambda>a b. compareFn sortOrder (user_field sortBy a) (user_field sortBy b)) users"

record list_users_input =
  lu_pagination :: "pagination_input option"
  lu_filters :: "user_filters option"

definition listUsers :: "user store \<Rightarrow> list_users_input \<Rightarrow> error + public_user pagination_output" where
  "listUsers st input =
     (let pagination = (case lu_pagination input of None \<Rightarrow> no_pagination | Some pg \<Rightarrow> pg);
          filters = (case lu_filters input of None \<Rightarrow> no_user_filters | Some f \<Rightarrow> f)
      in if \<not> PaginationInputSchema pagination then Inl ZodError
         else
           (let page = (case pg_page pagination of None \<Rightarrow> 1 | Some n \<Rightarrow> n);
                limit = (case pg_limit pagination of None \<Rightarrow> 20 | Some l \<Rightarrow> l);
                sortBy = (case pg_sortBy pagination of None \<Rightarrow> ''createdAt'' | Some f \<Rightarrow> f);
                sortOrder = (case pg_sortOrder pagination of None \<Rightarrow> Desc | Some so \<Rightarrow> so);
                users = filterUsers filters (store_values st);
                users = sortUsers sortBy sortOrder users
            in Inr (paginate toPublicUser users page limit)))"

section \<open>The stores at start-up\<close>

text \<open>
  Both modules fill their empty store with two records when they are loaded. The
  UUIDs and the clock value the runtime would supply are fixed here: posts have the
  identifiers \<open>a...1\<close> and \<open>a...2\<close>, their authors \<open>b...1\<close> and \<open>b...2\<close>, users
  \<open>c...1\<close> and \<open>c...2\<close>; \<open>f...f\<close> is a UUID that no record has.
\<close>

definition seed_post_1 :: create_post_input where
  "seed_post_1 =
     \<lparr> in_title = ''Getting Started with ORPC'',
       in_slug = None,
       in_content = ''ORPC is a powerful RPC framework for TypeScript...'',
       in_excerpt = Some ''Learn how to get started with ORPC'',
       in_category = Some Technology,
       in_tags = Some [''orpc'', ''typescript'', ''rpc''],
       in_featuredImage = None,
       in_status = None,
       in_published = Some True \<rparr>"

definition seed_post_2 :: create_post_input where
  "seed_post_2 =
     \<lparr> in_title = ''Building Type-Safe APIs'',
       in_slug = None,
       in_content = ''Type safety is crucial for modern web development...'',
       in_excerpt = None,
       in_category = Some Technology,
       in_tags = Some [''typescript'', ''api'', ''type-safety''],
       in_featuredImage = None,
       in_status = Some Draft,
       in_published = None \<rparr>"

definition initial_posts :: "post store" where
  "initial_posts =
     (let (p1, st1) = createMockPost [] seed_post_1 ''b0000000-0000-4000-8000-000000000001'' ''a0000000-0000-4000-8000-000000000001'' 1000;
          (p2, st2) = createMockPost st1 seed_post_2 ''b0000000-0000-4000-8000-000000000002'' ''a0000000-0000-4000-8000-000000000002'' 1000
      in st2)"

definition seed_user_1 :: create_user_input where
  "seed_user_1 =
     \<lparr> cu_email = ''admin@example.com'', cu_password = ''Admin123!'', cu_name = ''Admin User'',
       cu_username = Some ''admin'', cu_avatar = None, cu_role = Some Admin \<rparr>"

definition seed_user_2 :: create_user_input where
  "seed_user_2 =
     \<lparr> cu_email = ''john@example.com'', cu_password = ''User123!'', cu_name = ''John Doe'',
       cu_username = Some ''johndoe'', cu_avatar = None, cu_role = None \<rparr>"

definition initial_users :: "user store" where
  "initial_users =
     (let (u1, st1) = createMockUser [] seed_user_1 ''c0000000-0000-4000-8000-000000000001'' 1000;
          (u2, st2) = createMockUser st1 seed_user_2 ''c0000000-0000-4000-8000-000000000002'' 1000
      in st2)"

section \<open>Reachable stores and example inputs\<close>

text \<open>
  Every write to \<open>mockPosts\<close> files a post under its own \<open>id\<close>. \<open>ids_match\<close> says so of
  a store; \<open>reachable_posts\<close> are the stores the procedures can produce from the empty
  one.
\<close>

definition ids_match :: "post store \<Rightarrow> bool" where
  "ids_match st = list_all (\<lambda>e. post_id (snd e) = fst e) st"

inductive reachable_posts :: "post store \<Rightarrow> bool" where
  loaded: "reachable_posts []"
| seeded: "reachable_posts st \<Longrightarrow> reachable_posts (snd (createMockPost st input authorId newId now))"
| created: "reachable_posts st \<Longrightarrow> reachable_posts (snd (createPost st input authorId newId now))"
| read: "reachable_posts st \<Longrightarrow> reachable_posts (snd (getPost st i))"
| updated: "reachable_posts st \<Longrightarrow> reachable_posts (snd (updatePost st i d now))"
| deleted: "reachable_posts st \<Longrightarrow> reachable_posts (snd (deletePost st i))"
| published: "reachable_posts st \<Longrightarrow> reachable_posts (snd (publishPost st i b now))"


text \<open>The input \<open>{title: "Hello World", content: "0123456789"}\<close>.\<close>

definition hello_world :: create_post_input where
  "hello_world =
     \<lparr> in_title = ''Hello World'', in_slug = None, in_content = ''0123456789'',
       in_excerpt = None, in_category = None, in_tags = None, in_featuredImage = None,
       in_status = None, in_published = None \<rparr>"

text \<open>A new post with the title of the first seeded post, without and with a slug.\<close>

definition same_title :: create_post_input where
  "same_title =
     \<lparr> in_title = ''Getting Started with ORPC'', in_slug = None,
       in_content = ''A second post under the same title.'',
       in_excerpt = None, in_category = None, in_tags = None, in_featuredImage = None,
       in_status = None, in_published = None \<rparr>"

definition same_slug :: create_post_input where
  "same_slug = same_title \<lparr> in_slug := Some ''getting-started-with-orpc'' \<rparr>"

definition new_user :: create_user_input where
  "new_user =
     \<lparr> cu_email = ''alice@example.com'', cu_password = ''Alice123!'', cu_name = ''Alice'',
       cu_username = Some ''alice'', cu_avatar = None, cu_role = None \<rparr>"

text \<open>Requests for a page: the second page of twenty, and the first page of one record.\<close>

definition page_two :: pagination_input where
  "page_two = \<lparr> pg_page = Some 2, pg_limit = Some 20, pg_sortBy = None, pg_sortOrder = None \<rparr>"

definition page_of_one :: pagination_input where
  "page_of_one = \<lparr> pg_page = Some 1, pg_limit = Some 1, pg_sortBy = None, pg_sortOrder = None \<rparr>"

section \<open>The slug as the specification words it\<close>

text \<open>
  Written from the specification, not from the code: lower-case the title, replace every
  run of non-alphanumeric characters with a single hyphen, and strip leading and trailing
  hyphens. Alphanumeric means a letter \<open>A-Z\<close>, \<open>a-z\<close> or a digit. Each character that is
  not alphanumeric becomes a hyphen, a hyphen that follows a hyphen is dropped, and the
  hyphens at both ends are removed.
\<close>

definition is_alnum :: "char \<Rightarrow> bool" where
  "is_alnum c = (is_lower c \<or> is_upper c \<or> is_digit c)"

definition hyphen_for :: "char \<Rightarrow> char" where
  "hyphen_for c = (if is_alnum c then c else CHR ''-'')"

fun squeeze_hyphens :: "string \<Rightarrow> string" where
  "squeeze_hyphens (c # d # cs) =
     (if c = CHR ''-'' \<and> d = CHR ''-'' then squeeze_hyphens (d # cs)
      else c # squeeze_hyphens (d # cs))"
| "squeeze_hyphens cs = cs"

definition slug_spec :: "string \<Rightarrow> string" where
  "slug_spec title =
     rev (dropWhile (\<lambda>c. c = CHR ''-'')
       (rev (dropWhile (\<lambda>c. c = CHR ''-'')
          (squeeze_hyphens (map hyphen_for (toLowerCase title))))))"

text \<open>
  The first regular expression seen one character at a time: a character of the class
  stays, any other one is a hyphen.
\<close>

definition az09_or_hyphen :: "char \<Rightarrow> char" where
  "az09_or_hyphen c = (if is_az09 c then c else CHR ''-'')"

text \<open>The four records the modules create at start-up.\<close>

definition first_post :: post where
  "first_post = fst (createMockPost [] seed_post_1 ''b0000000-0000-4000-8000-000000000001'' ''a0000000-0000-4000-8000-000000000001'' 1000)"

definition second_post :: post where
  "second_post = fst (createMockPost [] seed_post_2 ''b0000000-0000-4000-8000-000000000002'' ''a0000000-0000-4000-8000-000000000002'' 1000)"

definition first_user :: user where
  "first_user = fst (createMockUser [] seed_user_1 ''c0000000-0000-4000-8000-000000000001'' 1000)"

definition second_user :: user where
  "second_user = fst (createMockUser [] seed_user_2 ''c0000000-0000-4000-8000-000000000002'' 1000)"

section \<open>Facts about the store\<close>

lemma store_get_set:
  "store_get (store_set st k v) k' = (if k' = k then Some v else store_get st k')"
  by (induction st k v rule: store_set.induct) auto

lemma store_get_delete:
  "store_get (store_delete st k) k' = (if k' = k then None else store_get st k')"
  by (induction st k rule: store_delete.induct) auto

lemma store_delete_filter: "store_delete st k = filter (\<lambda>e. fst e \<noteq> k) st"
  by (induction st k rule: store_delete.induct) auto

lemma store_set_twice: "store_set (store_set st k v) k v = store_set st k v"
  by (induction st k v rule: store_set.induct) auto

lemma keys_store_set:
  "map fst (store_set st k v) = (if store_get st k = None then map fst st @ [k] else map fst st)"
  by (induction st k v rule: store_set.induct) auto

lemma find_first_None: "find_first P xs = None \<longleftrightarrow> (\<forall>x\<in>set xs. \<not> P x)"
  by (induction xs) auto

lemma find_first_Some: "find_first P xs = Some x \<Longrightarrow> x \<in> set xs \<and> P x"
  by (induction xs) (auto split: if_splits)

lemma initial_posts_entries:
  "initial_posts = [(''a0000000-0000-4000-8000-000000000001'', first_post), (''a0000000-0000-4000-8000-000000000002'', second_post)]"
  by (simp add: initial_posts_def first_post_def second_post_def createMockPost_def Let_def)

lemma initial_users_entries:
  "initial_users = [(''c0000000-0000-4000-8000-000000000001'', first_user), (''c0000000-0000-4000-8000-000000000002'', second_user)]"
  by (simp add: initial_users_def first_user_def second_user_def createMockUser_def Let_def)

lemma initial_posts_get:
  "store_get initial_posts ''a0000000-0000-4000-8000-000000000001'' = Some first_post"
  "store_get initial_posts ''a0000000-0000-4000-8000-000000000002'' = Some second_post"
  "store_get initial_posts ''c0000000-0000-4000-8000-000000000001'' = None"
  "store_get initial_posts ''f0000000-0000-4000-8000-00000000000f'' = None"
  by (simp_all add: initial_posts_entries)

lemma initial_users_get:
  "store_get initial_users ''c0000000-0000-4000-8000-000000000001'' = Some first_user"
  "store_get initial_users ''c0000000-0000-4000-8000-000000000002'' = Some second_user"
  "store_get initial_users ''a0000000-0000-4000-8000-000000000001'' = None"
  "store_get initial_users ''f0000000-0000-4000-8000-00000000000f'' = None"
  by (simp_all add: initial_users_entries)

lemma ids_match_get: "ids_match st \<Longrightarrow> store_get st i = Some p \<Longrightarrow> post_id p = i"
  by (induction st i rule: store_get.induct) (auto simp: ids_match_def split: if_splits)

lemma ids_match_set: "ids_match st \<Longrightarrow> post_id p = k \<Longrightarrow> ids_match (store_set st k p)"
  by (induction st k p rule: store_set.induct) (auto simp: ids_match_def)

lemma ids_match_delete: "ids_match st \<Longrightarrow> ids_match (store_delete st k)"
  by (induction st k rule: store_delete.induct) (auto simp: ids_match_def)

lemma post_id_spread: "post_id (spread p d) = post_id p"
  by (simp add: spread_def)

lemma ids_match_createMockPost:
  "ids_match st \<Longrightarrow> ids_match (snd (createMockPost st input authorId newId now))"
  by (simp add: createMockPost_def Let_def ids_match_set)

lemma ids_match_createPost:
  "ids_match st \<Longrightarrow> ids_match (snd (createPost st input authorId newId now))"
  using ids_match_createMockPost [of st input authorId newId now]
  by (cases "createMockPost st input authorId newId now") (auto simp: createPost_def)

lemma ids_match_getPost:
  assumes "ids_match st"
  shows "ids_match (snd (getPost st i))"
proof (cases "store_get st i")
  case None
  then show ?thesis using assms by (simp add: getPost_def)
next
  case (Some p)
  then have "post_id p = i" using assms ids_match_get by blast
  then show ?thesis using assms Some
    by (simp add: getPost_def Let_def store_set_twice ids_match_set)
qed

lemma ids_match_updatePost: "ids_match st \<Longrightarrow> ids_match (snd (updatePost st i d now))"
  by (auto simp: updatePost_def Let_def post_id_spread intro!: ids_match_set
      dest: ids_match_get split: option.splits)

lemma ids_match_deletePost: "ids_match st \<Longrightarrow> ids_match (snd (deletePost st i))"
  by (auto simp: deletePost_def ids_match_delete split: option.splits)

lemma ids_match_publishPost: "ids_match st \<Longrightarrow> ids_match (snd (publishPost st i b now))"
  by (auto simp: publishPost_def Let_def intro!: ids_match_set dest: ids_match_get
      split: option.splits)

lemma reachable_ids_match: "reachable_posts st \<Longrightarrow> ids_match st"
proof (induction rule: reachable_posts.induct)
  case loaded
  show ?case by (simp add: ids_match_def)
qed (simp_all add: ids_match_createMockPost ids_match_createPost ids_match_getPost
      ids_match_updatePost ids_match_deletePost ids_match_publishPost)

lemma reachable_initial_posts: "reachable_posts initial_posts"
proof -
  have "reachable_posts (snd (createMockPost [] seed_post_1 ''b0000000-0000-4000-8000-000000000001'' ''a0000000-0000-4000-8000-000000000001'' 1000))"
    by (intro reachable_posts.seeded reachable_posts.loaded)
  then have "reachable_posts
      (snd (createMockPost (snd (createMockPost [] seed_post_1 ''b0000000-0000-4000-8000-000000000001'' ''a0000000-0000-4000-8000-000000000001'' 1000))
              seed_post_2 ''b0000000-0000-4000-8000-000000000002'' ''a0000000-0000-4000-8000-000000000002'' 1000))"
    by (rule reachable_posts.seeded)
  then show ?thesis by (simp add: initial_posts_def Let_def split_beta)
qed

section \<open>Deleting\<close>

text \<open>
  Claim C7. For every store and every identifier the schema accepts: deleting an identifier
  that is absent fails with the not-found error and leaves the store as it was; deleting a
  present one answers success and removes exactly that entry, every other entry staying
  where it was, so that a get of the same identifier afterwards fails with the not-found
  error. This holds for \<open>deletePost\<close> with \<open>getPost\<close> and for \<open>deleteUser\<close> with
  \<open>getUser\<close>.
\<close>

theorem delete_removes:
  assumes "IdParamSchema i"
  shows "(store_get posts i = None \<longrightarrow>
            deletePost posts i = (Inl (Error ''Post not found''), posts)) \<and>
         (store_get posts i \<noteq> None \<longrightarrow>
            deletePost posts i = (Inr Success, filter (\<lambda>e. fst e \<noteq> i) posts) \<and>
            (\<forall>k. k \<noteq> i \<longrightarrow> store_get (snd (deletePost posts i)) k = store_get posts k) \<and>
            fst (getPost (snd (deletePost posts i)) i) = Inl (Error ''Post not found'')) \<and>
         (store_get users i = None \<longrightarrow>
            deleteUser users i = (Inl (Error ''User not found''), users)) \<and>
         (store_get users i \<noteq> None \<longrightarrow>
            deleteUser users i = (Inr Success, filter (\<lambda>e. fst e \<noteq> i) users) \<and>
            (\<forall>k. k \<noteq> i \<longrightarrow> store_get (snd (deleteUser users i)) k = store_get users k) \<and>
            getUser (snd (deleteUser users i)) i = Inl (Error ''User not found''))"
  using assms
  by (auto simp: deletePost_def deleteUser_def getPost_def getUser_def store_get_delete
      store_delete_filter [symmetric])

theorem delete_removes_witness:
  "IdParamSchema ''a0000000-0000-4000-8000-000000000001'' \<and> IdParamSchema ''c0000000-0000-4000-8000-000000000001'' \<and>
   store_get initial_posts ''a0000000-0000-4000-8000-000000000001'' = Some first_post \<and>
   store_get initial_users ''a0000000-0000-4000-8000-000000000001'' = None \<and>
   store_get initial_posts ''c0000000-0000-4000-8000-000000000001'' = None \<and>
   store_get initial_users ''c0000000-0000-4000-8000-000000000001'' = Some first_user \<and>
   deletePost initial_posts ''a0000000-0000-4000-8000-000000000001''
     = (Inr Success, filter (\<lambda>e. fst e \<noteq> ''a0000000-0000-4000-8000-000000000001'') initial_posts) \<and>
   fst (getPost (snd (deletePost initial_posts ''a0000000-0000-4000-8000-000000000001'')) ''a0000000-0000-4000-8000-000000000001'')
     = Inl (Error ''Post not found'') \<and>
   deleteUser initial_users ''a0000000-0000-4000-8000-000000000001'' = (Inl (Error ''User not found''), initial_users) \<and>
   deletePost initial_posts ''c0000000-0000-4000-8000-000000000001'' = (Inl (Error ''Post not found''), initial_posts) \<and>
   deleteUser initial_users ''c0000000-0000-4000-8000-000000000001''
     = (Inr Success, filter (\<lambda>e. fst e \<noteq> ''c0000000-0000-4000-8000-000000000001'') initial_users) \<and>
   getUser (snd (deleteUser initial_users ''c0000000-0000-4000-8000-000000000001'')) ''c0000000-0000-4000-8000-000000000001''
     = Inl (Error ''User not found'')"
proof -
  have v1: "IdParamSchema ''a0000000-0000-4000-8000-000000000001''" and v2: "IdParamSchema ''c0000000-0000-4000-8000-000000000001''"
    by (simp_all add: IdParamSchema_def)
  have g: "store_get initial_posts ''a0000000-0000-4000-8000-000000000001'' \<noteq> None" "store_get initial_users ''c0000000-0000-4000-8000-000000000001'' \<noteq> None"
    by (simp_all add: initial_posts_get initial_users_get)
  show ?thesis
    using v1 v2 g initial_posts_get initial_users_get
      delete_removes [OF v1, of initial_posts initial_users]
      delete_removes [OF v2, of initial_posts initial_users]
    by blast
qed

section \<open>Reading a post\<close>

lemma toPublicPost_viewCount: "toPublicPost (p\<lparr>post_viewCount := n\<rparr>) = toPublicPost p"
  by (simp add: toPublicPost_def)

lemma first_post_fields:
  "post_viewCount first_post = 0" "post_id first_post = ''a0000000-0000-4000-8000-000000000001''"
  by (simp_all add: first_post_def createMockPost_def Let_def)

text \<open>
  Claim C9. On a store in which every post is filed under its own identifier (every
  reachable store is one, by \<open>reachable_ids_match\<close>) and for an identifier the schema
  accepts: \<open>getPost\<close> of an absent identifier fails with the not-found error and leaves the
  store as it was; \<open>getPost\<close> of a present one writes the store, in which that post now has
  its \<open>viewCount\<close> greater by exactly one and every other field as before, every other
  entry is as before and the keys keep their order. The public post that is returned has
  no view count: it is the public view of the post before the increment, and no choice of
  \<open>viewCount\<close> changes a public view.
\<close>

theorem getPost_counts_view:
  assumes "IdParamSchema i" and "ids_match st"
  shows "(store_get st i = None \<longrightarrow> getPost st i = (Inl (Error ''Post not found''), st)) \<and>
         (\<forall>p. store_get st i = Some p \<longrightarrow>
            getPost st i = (Inr (toPublicPost p),
                            store_set st i (p\<lparr>post_viewCount := post_viewCount p + 1\<rparr>)) \<and>
            store_get (snd (getPost st i)) i
              = Some (p\<lparr>post_viewCount := post_viewCount p + 1\<rparr>) \<and>
            (\<forall>k. k \<noteq> i \<longrightarrow> store_get (snd (getPost st i)) k = store_get st k) \<and>
            map fst (snd (getPost st i)) = map fst st \<and>
            (\<forall>n. toPublicPost (p\<lparr>post_viewCount := n\<rparr>) = toPublicPost p))"
proof (intro conjI allI impI)
  assume "store_get st i = None"
  then show "getPost st i = (Inl (Error ''Post not found''), st)"
    using assms by (simp add: getPost_def)
next
  fix p assume g: "store_get st i = Some p"
  then have pid: "post_id p = i" using assms(2) by (rule ids_match_get [rotated])
  show eq: "getPost st i = (Inr (toPublicPost p),
              store_set st i (p\<lparr>post_viewCount := post_viewCount p + 1\<rparr>))"
    using assms(1) g pid by (simp add: getPost_def Let_def store_set_twice toPublicPost_viewCount)
  show "store_get (snd (getPost st i)) i = Some (p\<lparr>post_viewCount := post_viewCount p + 1\<rparr>)"
    by (simp add: eq store_get_set)
  show "map fst (snd (getPost st i)) = map fst st"
    by (simp add: eq keys_store_set g)
  show "toPublicPost (p\<lparr>post_viewCount := n\<rparr>) = toPublicPost p" for n
    by (rule toPublicPost_viewCount)
  show "store_get (snd (getPost st i)) k = store_get st k" if "k \<noteq> i" for k
    using that by (simp add: eq store_get_set)
qed

theorem getPost_counts_view_witness:
  "IdParamSchema ''a0000000-0000-4000-8000-000000000001'' \<and> IdParamSchema ''f0000000-0000-4000-8000-00000000000f'' \<and> ids_match initial_posts \<and>
   store_get initial_posts ''f0000000-0000-4000-8000-00000000000f'' = None \<and>
   getPost initial_posts ''f0000000-0000-4000-8000-00000000000f'' = (Inl (Error ''Post not found''), initial_posts) \<and>
   store_get initial_posts ''a0000000-0000-4000-8000-000000000001'' = Some first_post \<and>
   post_viewCount first_post = 0 \<and>
   getPost initial_posts ''a0000000-0000-4000-8000-000000000001''
     = (Inr (toPublicPost first_post),
        store_set initial_posts ''a0000000-0000-4000-8000-000000000001'' (first_post\<lparr>post_viewCount := 1\<rparr>)) \<and>
   store_get (snd (getPost initial_posts ''a0000000-0000-4000-8000-000000000001'')) ''a0000000-0000-4000-8000-000000000001''
     = Some (first_post\<lparr>post_viewCount := 1\<rparr>) \<and>
   map fst (snd (getPost initial_posts ''a0000000-0000-4000-8000-000000000001'')) = [''a0000000-0000-4000-8000-000000000001'', ''a0000000-0000-4000-8000-000000000002'']"
proof -
  have v1: "IdParamSchema ''a0000000-0000-4000-8000-000000000001''" and v2: "IdParamSchema ''f0000000-0000-4000-8000-00000000000f''"
    by (simp_all add: IdParamSchema_def)
  have m: "ids_match initial_posts"
    by (intro reachable_ids_match reachable_initial_posts)
  have k: "map fst initial_posts = [''a0000000-0000-4000-8000-000000000001'', ''a0000000-0000-4000-8000-000000000002'']"
    by (simp add: initial_posts_entries)
  show ?thesis
    using v1 v2 m k initial_posts_get first_post_fields
      getPost_counts_view [OF v1 m] getPost_counts_view [OF v2 m]
    by (simp add: store_get_set keys_store_set)
qed

section \<open>Finding a user by e-mail address\<close>

text \<open>
  Claim C10. For every store and every address, \<open>getUserByEmail\<close> returns and never
  fails: it answers \<open>null\<close> when no user has the address, and the public fields of a user
  with that address when there is one. \<open>getUser\<close>, unlike it, fails with the not-found
  error for an identifier that is absent.
\<close>

theorem getUserByEmail_total:
  "(\<exists>r. getUserByEmail st email = Inr r) \<and>
   ((\<forall>u\<in>set (store_values st). user_email u \<noteq> email) \<longrightarrow>
      getUserByEmail st email = Inr None) \<and>
   ((\<exists>u\<in>set (store_values st). user_email u = email) \<longrightarrow>
      (\<exists>u\<in>set (store_values st). user_email u = email \<and>
         getUserByEmail st email = Inr (Some (toPublicUser u)))) \<and>
   (IdParamSchema i \<and> store_get st i = None \<longrightarrow> getUser st i = Inl (Error ''User not found''))"
proof -
  have a: "\<exists>r. getUserByEmail st email = Inr r"
    by (simp add: getUserByEmail_def split: option.split)
  have b: "getUserByEmail st email = Inr None"
    if "\<forall>u\<in>set (store_values st). user_email u \<noteq> email"
  proof -
    have "find_first (\<lambda>u. user_email u = email) (store_values st) = None"
      using that by (simp add: find_first_None)
    then show ?thesis by (simp add: getUserByEmail_def)
  qed
  have c: "\<exists>u\<in>set (store_values st). user_email u = email \<and>
         getUserByEmail st email = Inr (Some (toPublicUser u))"
    if "\<exists>u\<in>set (store_values st). user_email u = email"
  proof -
    from that obtain u where "find_first (\<lambda>u. user_email u = email) (store_values st) = Some u"
      by (cases "find_first (\<lambda>u. user_email u = email) (store_values st)")
        (auto simp: find_first_None)
    then show ?thesis
      using find_first_Some [of "\<lambda>u. user_email u = email" "store_values st" u]
      by (auto simp: getUserByEmail_def)
  qed
  have d: "getUser st i = Inl (Error ''User not found'')"
    if "IdParamSchema i \<and> store_get st i = None"
    using that by (simp add: getUser_def)
  show ?thesis using a b c d by blast
qed

lemma seed_user_emails:
  "user_email first_user = ''admin@example.com''" "user_email second_user = ''john@example.com''"
  "user_username first_user = Some ''admin''" "user_username second_user = Some ''johndoe''"
  by (simp_all add: first_user_def second_user_def createMockUser_def Let_def seed_user_1_def
      seed_user_2_def)

theorem getUserByEmail_total_witness:
  "getUserByEmail initial_users ''nobody@example.com'' = Inr None \<and>
   getUserByEmail initial_users ''john@example.com'' = Inr (Some (toPublicUser second_user)) \<and>
   IdParamSchema ''f0000000-0000-4000-8000-00000000000f'' \<and> store_get initial_users ''f0000000-0000-4000-8000-00000000000f'' = None \<and>
   getUser initial_users ''f0000000-0000-4000-8000-00000000000f'' = Inl (Error ''User not found'')"
proof -
  have v: "IdParamSchema ''f0000000-0000-4000-8000-00000000000f''" by (simp add: IdParamSchema_def)
  have vals: "store_values initial_users = [first_user, second_user]"
    by (simp add: store_values_def initial_users_entries)
  have none: "\<forall>u\<in>set (store_values initial_users). user_email u \<noteq> ''nobody@example.com''"
    by (simp add: vals seed_user_emails)
  have some: "\<exists>u\<in>set (store_values initial_users). user_email u = ''john@example.com''"
    by (simp add: vals seed_user_emails)
  have "getUserByEmail initial_users ''nobody@example.com'' = Inr None"
    using getUserByEmail_total [of initial_users "''nobody@example.com''" "''f0000000-0000-4000-8000-00000000000f''"] none
    by blast
  moreover have "getUserByEmail initial_users ''john@example.com''
      = Inr (Some (toPublicUser second_user))"
    using getUserByEmail_total [of initial_users "''john@example.com''" "''f0000000-0000-4000-8000-00000000000f''"] some
    by (auto simp: vals seed_user_emails)
  moreover have "getUser initial_users ''f0000000-0000-4000-8000-00000000000f'' = Inl (Error ''User not found'')"
    using getUserByEmail_total [of initial_users "''john@example.com''" "''f0000000-0000-4000-8000-00000000000f''"] v
      initial_users_get(4)
    by blast
  ultimately show ?thesis using v initial_users_get(4) by simp
qed

section \<open>Creating a user\<close>

text \<open>
  Claim C6. For every store and every input the schema accepts: when some user already has
  the input's e-mail address, \<open>createUser\<close> fails with the duplicate error and the store is
  as it was; when no user has the address and no user has the user name the input gives
  (if it gives one), \<open>createUser\<close> succeeds, and \<open>getUser\<close> with the returned identifier
  finds the created user at once. The fresh identifier is one \<open>IdParamSchema\<close> accepts, as
  every UUID is.
\<close>

theorem createUser_email:
  assumes "CreateUserInputSchema input"
  shows "((\<exists>u\<in>set (store_values st). user_email u = cu_email input) \<longrightarrow>
            createUser st input newId now = (Inl (Error ''Email already exists''), st)) \<and>
         ((\<forall>u\<in>set (store_values st). user_email u \<noteq> cu_email input) \<and>
          (\<forall>n. cu_username input = Some n \<longrightarrow>
               (\<forall>u\<in>set (store_values st). user_username u \<noteq> Some n)) \<and>
          IdParamSchema newId \<longrightarrow>
            (\<exists>u st'. createUser st input newId now = (Inr u, st') \<and>
               user_id u = newId \<and> user_email u = cu_email input \<and>
               store_get st' (user_id u) = Some u \<and>
               getUser st' (user_id u) = Inr (toPublicUser u)))"
proof (intro conjI impI)
  assume "\<exists>u\<in>set (store_values st). user_email u = cu_email input"
  then have "find_first (\<lambda>u. user_email u = cu_email input) (store_values st) \<noteq> None"
    by (simp add: find_first_None)
  then show "createUser st input newId now = (Inl (Error ''Email already exists''), st)"
    using assms by (simp add: createUser_def)
next
  assume h: "(\<forall>u\<in>set (store_values st). user_email u \<noteq> cu_email input) \<and>
          (\<forall>n. cu_username input = Some n \<longrightarrow>
               (\<forall>u\<in>set (store_values st). user_username u \<noteq> Some n)) \<and>
          IdParamSchema newId"
  then have e: "find_first (\<lambda>u. user_email u = cu_email input) (store_values st) = None"
    by (simp add: find_first_None)
  have n: "\<not> (truthy (cu_username input) \<and>
      find_first (\<lambda>u. user_username u = cu_username input) (store_values st) \<noteq> None)"
    using h by (cases "cu_username input") (auto simp: find_first_None)
  obtain u st' where c: "createMockUser st input newId now = (u, st')"
    by (cases "createMockUser st input newId now")
  then have u: "user_id u = newId" "user_email u = cu_email input" "st' = store_set st newId u"
    by (auto simp: createMockUser_def Let_def)
  have r: "createUser st input newId now = (Inr u, st')"
    using assms e n c by (simp add: createUser_def)
  have g: "store_get st' (user_id u) = Some u"
    using u by (simp add: store_get_set)
  then have "getUser st' (user_id u) = Inr (toPublicUser u)"
    using h u by (simp add: getUser_def)
  then show "\<exists>u st'. createUser st input newId now = (Inr u, st') \<and>
               user_id u = newId \<and> user_email u = cu_email input \<and>
               store_get st' (user_id u) = Some u \<and>
               getUser st' (user_id u) = Inr (toPublicUser u)"
    using r u g by blast
qed

lemma seed_user_1_valid: "CreateUserInputSchema seed_user_1"
  by (simp add: CreateUserInputSchema_def seed_user_1_def valid_password_def valid_username_def
      is_lower_def is_upper_def is_digit_def)

lemma new_user_valid: "CreateUserInputSchema new_user"
  by (simp add: CreateUserInputSchema_def new_user_def valid_password_def valid_username_def
      is_lower_def is_upper_def is_digit_def)

theorem createUser_email_witness:
  "CreateUserInputSchema seed_user_1 \<and> CreateUserInputSchema new_user \<and>
   IdParamSchema ''c0000000-0000-4000-8000-000000000003'' \<and>
   createUser initial_users seed_user_1 ''c0000000-0000-4000-8000-000000000003'' 2000
     = (Inl (Error ''Email already exists''), initial_users) \<and>
   (\<exists>u st'. createUser initial_users new_user ''c0000000-0000-4000-8000-000000000003'' 2000 = (Inr u, st') \<and>
      user_id u = ''c0000000-0000-4000-8000-000000000003'' \<and> user_email u = ''alice@example.com'' \<and>
      getUser st' ''c0000000-0000-4000-8000-000000000003'' = Inr (toPublicUser u))"
proof -
  have v: "IdParamSchema ''c0000000-0000-4000-8000-000000000003''" by (simp add: IdParamSchema_def)
  have vals: "store_values initial_users = [first_user, second_user]"
    by (simp add: store_values_def initial_users_entries)
  have dup: "\<exists>u\<in>set (store_values initial_users). user_email u = cu_email seed_user_1"
    by (simp add: vals seed_user_emails seed_user_1_def)
  have fresh: "(\<forall>u\<in>set (store_values initial_users). user_email u \<noteq> cu_email new_user) \<and>
      (\<forall>n. cu_username new_user = Some n \<longrightarrow>
         (\<forall>u\<in>set (store_values initial_users). user_username u \<noteq> Some n)) \<and>
      IdParamSchema ''c0000000-0000-4000-8000-000000000003''"
    using v by (simp add: vals seed_user_emails new_user_def)
  have "createUser initial_users seed_user_1 ''c0000000-0000-4000-8000-000000000003'' 2000
      = (Inl (Error ''Email already exists''), initial_users)"
    using createUser_email [OF seed_user_1_valid, of initial_users "''c0000000-0000-4000-8000-000000000003''" 2000] dup
    by blast
  moreover have "\<exists>u st'. createUser initial_users new_user ''c0000000-0000-4000-8000-000000000003'' 2000 = (Inr u, st') \<and>
      user_id u = ''c0000000-0000-4000-8000-000000000003'' \<and> user_email u = ''alice@example.com'' \<and>
      getUser st' ''c0000000-0000-4000-8000-000000000003'' = Inr (toPublicUser u)"
    using createUser_email [OF new_user_valid, of initial_users "''c0000000-0000-4000-8000-000000000003''" 2000] fresh
    by (auto simp: new_user_def)
  ultimately show ?thesis using v seed_user_1_valid new_user_valid by blast
qed

section \<open>The publish timestamp\<close>







section \<open>Pages\<close>

lemma mset_insert_by: "mset (insert_by cmp x ys) = add_mset x (mset ys)"
  by (induction ys) auto

lemma mset_foldl_insert_by:
  "mset (foldl (\<lambda>sorted x. insert_by cmp x sorted) acc xs) = mset acc + mset xs"
  by (induction xs arbitrary: acc) (auto simp: mset_insert_by)

lemma mset_array_sort: "mset (array_sort cmp xs) = mset xs"
  by (simp add: array_sort_def mset_foldl_insert_by)

lemma length_array_sort: "length (array_sort cmp xs) = length xs"
  using mset_array_sort [of cmp xs] by (metis size_mset)

lemma length_sortPosts: "length (sortPosts sb so xs) = length xs"
  by (simp add: sortPosts_def length_array_sort)

lemma length_sortUsers: "length (sortUsers sb so xs) = length xs"
  by (simp add: sortUsers_def length_array_sort)

lemma slice_page:
  assumes "0 \<le> start" and "0 \<le> limit"
  shows "slice xs start (start + limit) = take (nat limit) (drop (nat start) xs)"
proof (cases "start \<le> int (length xs)")
  case True
  then show ?thesis using assms
    by (auto simp: slice_def Let_def min_def)
next
  case False
  then show ?thesis using assms by (simp add: slice_def Let_def min_def)
qed

lemma length_slice_page:
  assumes "0 \<le> start" and "0 \<le> limit"
  shows "int (length (slice xs start (start + limit))) =
         (if 0 < int (length xs) - start then min limit (int (length xs) - start) else 0)"
  using assms by (auto simp: slice_page min_def)

lemma paginate_data_length:
  assumes "1 \<le> page" and "1 \<le> limit"
  shows "int (length (out_data (paginate f xs page limit))) =
         (if 0 < int (length xs) - (page - 1) * limit
          then min limit (int (length xs) - (page - 1) * limit) else 0)"
proof -
  have "0 \<le> (page - 1) * limit" using assms by simp
  then show ?thesis using assms
    by (simp add: paginate_def Let_def length_slice_page del: of_nat_diff)
qed

lemma out_total_paginate: "out_total (paginate f xs page limit) = int (length xs)"
  by (simp add: paginate_def Let_def)

lemma ceil_div_bound:
  assumes "0 < limit"
  shows "tot \<le> ceil_div tot limit * limit"
proof -
  have "0 \<le> (- tot) mod limit" using assms by simp
  then have "(- tot) div limit * limit \<le> - tot"
    by (simp add: minus_mod_eq_div_mult [symmetric])
  then show ?thesis by (simp add: ceil_div_def)
qed

lemma paginate_beyond:
  assumes "1 \<le> page" and "1 \<le> limit" and "out_totalPages (paginate f xs page limit) < page"
  shows "out_data (paginate f xs page limit) = []"
proof -
  have tp: "ceil_div (int (length xs)) limit \<le> page - 1"
    using assms(3) by (simp add: paginate_def Let_def)
  have "int (length xs) \<le> ceil_div (int (length xs)) limit * limit"
    using assms(2) by (intro ceil_div_bound) simp
  also have "\<dots> \<le> (page - 1) * limit"
    using tp assms(2) by (intro mult_right_mono) simp_all
  finally have "int (length xs) - (page - 1) * limit \<le> 0" by simp
  then have "int (length (out_data (paginate f xs page limit))) = 0"
    using paginate_data_length [OF assms(1,2), of f xs] by simp
  then show ?thesis by simp
qed

lemma paginate_empty:
  assumes "1 \<le> page" and "1 \<le> limit"
  shows "paginate f [] page limit =
     \<lparr> out_data = [], out_total = 0, out_page = page, out_totalPages = 0,
       out_hasNextPage = False, out_hasPreviousPage = (1 < page) \<rparr>"
  using assms by (simp add: paginate_def Let_def ceil_div_def slice_def)

lemma listPosts_eq:
  assumes "PaginationInputSchema pg"
    and "pg = (case lp_pagination inp of None \<Rightarrow> no_pagination | Some x \<Rightarrow> x)"
  shows "listPosts st inp =
     Inr (paginate toPublicPost
            (sortPosts (case pg_sortBy pg of None \<Rightarrow> ''createdAt'' | Some f \<Rightarrow> f)
               (case pg_sortOrder pg of None \<Rightarrow> Desc | Some so \<Rightarrow> so)
               (filterPosts (case lp_filters inp of None \<Rightarrow> no_post_filters | Some f \<Rightarrow> f)
                  (store_values st)))
            (case pg_page pg of None \<Rightarrow> 1 | Some n \<Rightarrow> n)
            (case pg_limit pg of None \<Rightarrow> 20 | Some l \<Rightarrow> l))"
  using assms by (simp add: listPosts_def Let_def)

lemma listUsers_eq:
  assumes "PaginationInputSchema pg"
    and "pg = (case lu_pagination inp of None \<Rightarrow> no_pagination | Some x \<Rightarrow> x)"
  shows "listUsers st inp =
     Inr (paginate toPublicUser
            (sortUsers (case pg_sortBy pg of None \<Rightarrow> ''createdAt'' | Some f \<Rightarrow> f)
               (case pg_sortOrder pg of None \<Rightarrow> Desc | Some so \<Rightarrow> so)
               (filterUsers (case lu_filters inp of None \<Rightarrow> no_user_filters | Some f \<Rightarrow> f)
                  (store_values st)))
            (case pg_page pg of None \<Rightarrow> 1 | Some n \<Rightarrow> n)
            (case pg_limit pg of None \<Rightarrow> 20 | Some l \<Rightarrow> l))"
  using assms by (simp add: listUsers_def Let_def)

lemma valid_page_limit:
  assumes "PaginationInputSchema pg"
  shows "1 \<le> (case pg_page pg of None \<Rightarrow> 1 | Some n \<Rightarrow> n)"
    and "1 \<le> (case pg_limit pg of None \<Rightarrow> 20 | Some l \<Rightarrow> l)"
    and "(case pg_limit pg of None \<Rightarrow> 20 | Some l \<Rightarrow> l) \<le> 100"
  using assms by (auto simp: PaginationInputSchema_def split: option.splits)

lemma filterPosts_none: "filterPosts no_post_filters xs = xs"
  by (simp add: filterPosts_def no_post_filters_def filter_if_def)

lemma filterUsers_none: "filterUsers no_user_filters xs = xs"
  by (simp add: filterUsers_def no_user_filters_def filter_if_def)

lemma filterPosts_empty: "filterPosts f [] = []"
  by (simp add: filterPosts_def filter_if_def Let_def)

lemma filterUsers_empty: "filterUsers f [] = []"
  by (simp add: filterUsers_def filter_if_def Let_def)

lemma page_of_one_valid: "PaginationInputSchema page_of_one"
  by (simp add: PaginationInputSchema_def page_of_one_def)

lemma page_two_valid: "PaginationInputSchema page_two"
  by (simp add: PaginationInputSchema_def page_two_def)

text \<open>
  Claim C2. For every store, every filter and every pagination input the schema accepts
  (\<open>page \<ge> 1\<close>, \<open>1 \<le> limit \<le> 100\<close>, with \<open>page = 1\<close> and \<open>limit = 20\<close> when absent),
  \<open>listPosts\<close> and \<open>listUsers\<close> return without error, \<open>total\<close> is the number of records
  left by the filters, \<open>data\<close> has at most \<open>limit\<close> elements, and it has exactly
  \<open>min(limit, total - (page-1)*limit)\<close> elements when that number is positive and none
  otherwise.
\<close>

theorem list_data_length:
  assumes "PaginationInputSchema pg"
    and "pg = (case lp_pagination pinp of None \<Rightarrow> no_pagination | Some x \<Rightarrow> x)"
    and "pg = (case lu_pagination uinp of None \<Rightarrow> no_pagination | Some x \<Rightarrow> x)"
    and "page = (case pg_page pg of None \<Rightarrow> 1 | Some n \<Rightarrow> n)"
    and "limit = (case pg_limit pg of None \<Rightarrow> 20 | Some l \<Rightarrow> l)"
    and "ptotal = int (length (filterPosts
           (case lp_filters pinp of None \<Rightarrow> no_post_filters | Some f \<Rightarrow> f)
           (store_values posts)))"
    and "utotal = int (length (filterUsers
           (case lu_filters uinp of None \<Rightarrow> no_user_filters | Some f \<Rightarrow> f)
           (store_values users)))"
  shows "(\<exists>r. listPosts posts pinp = Inr r \<and> out_total r = ptotal \<and>
            int (length (out_data r)) \<le> limit \<and>
            int (length (out_data r)) =
              (if 0 < ptotal - (page - 1) * limit
               then min limit (ptotal - (page - 1) * limit) else 0)) \<and>
         (\<exists>r. listUsers users uinp = Inr r \<and> out_total r = utotal \<and>
            int (length (out_data r)) \<le> limit \<and>
            int (length (out_data r)) =
              (if 0 < utotal - (page - 1) * limit
               then min limit (utotal - (page - 1) * limit) else 0))"
proof -
  have pl: "1 \<le> page" "1 \<le> limit"
    using valid_page_limit [OF assms(1)] assms(4,5) by simp_all
  have len: "int (length (out_data (paginate f xs page limit))) \<le> limit"
    for f :: "'x \<Rightarrow> 'y" and xs
    using paginate_data_length [OF pl, of f xs] pl by (simp split: if_splits)
  have p: "listPosts posts pinp = Inr (paginate toPublicPost
            (sortPosts (case pg_sortBy pg of None \<Rightarrow> ''createdAt'' | Some f \<Rightarrow> f)
               (case pg_sortOrder pg of None \<Rightarrow> Desc | Some so \<Rightarrow> so)
               (filterPosts (case lp_filters pinp of None \<Rightarrow> no_post_filters | Some f \<Rightarrow> f)
                  (store_values posts))) page limit)"
    using listPosts_eq [OF assms(1,2)] assms(4,5) by simp
  have u: "listUsers users uinp = Inr (paginate toPublicUser
            (sortUsers (case pg_sortBy pg of None \<Rightarrow> ''createdAt'' | Some f \<Rightarrow> f)
               (case pg_sortOrder pg of None \<Rightarrow> Desc | Some so \<Rightarrow> so)
               (filterUsers (case lu_filters uinp of None \<Rightarrow> no_user_filters | Some f \<Rightarrow> f)
                  (store_values users))) page limit)"
    using listUsers_eq [OF assms(1,3)] assms(4,5) by simp
  show ?thesis
    unfolding p u
    using pl len
    by (simp add: out_total_paginate paginate_data_length length_sortPosts length_sortUsers
        assms(6,7) del: of_nat_diff)
qed

theorem list_data_length_witness:
  "PaginationInputSchema page_of_one \<and>
   (\<exists>r. listPosts initial_posts \<lparr>lp_pagination = Some page_of_one, lp_filters = None\<rparr> = Inr r \<and>
      out_total r = 2 \<and> int (length (out_data r)) = 1) \<and>
   (\<exists>r. listUsers initial_users \<lparr>lu_pagination = Some page_of_one, lu_filters = None\<rparr> = Inr r \<and>
      out_total r = 2 \<and> int (length (out_data r)) = 1)"
proof -
  have "(\<exists>r. listPosts initial_posts \<lparr>lp_pagination = Some page_of_one, lp_filters = None\<rparr>
            = Inr r \<and> out_total r = 2 \<and> int (length (out_data r)) \<le> 1 \<and>
            int (length (out_data r))
              = (if 0 < (2::int) - (1 - 1) * 1 then min 1 (2 - (1 - 1) * 1) else 0)) \<and>
        (\<exists>r. listUsers initial_users \<lparr>lu_pagination = Some page_of_one, lu_filters = None\<rparr>
            = Inr r \<and> out_total r = 2 \<and> int (length (out_data r)) \<le> 1 \<and>
            int (length (out_data r))
              = (if 0 < (2::int) - (1 - 1) * 1 then min 1 (2 - (1 - 1) * 1) else 0))"
    by (rule list_data_length [OF page_of_one_valid])
      (simp_all add: page_of_one_def filterPosts_none filterUsers_none store_values_def
        initial_posts_entries initial_users_entries)
  then show ?thesis using page_of_one_valid by auto
qed

lemma out_totalPages_paginate:
  "out_totalPages (paginate f xs page limit) = ceil_div (int (length xs)) limit"
  by (simp add: paginate_def Let_def)

lemma sortPosts_empty: "sortPosts sb so [] = []"
  by (simp add: sortPosts_def array_sort_def)

lemma sortUsers_empty: "sortUsers sb so [] = []"
  by (simp add: sortUsers_def array_sort_def)

text \<open>
  Claim C5, as the code has it. For every pagination input the schema accepts: on an empty
  store the list procedures return \<open>total = 0\<close>, \<open>totalPages = 0\<close>, no data,
  \<open>hasNextPage\<close> false, and \<open>hasPreviousPage\<close> true exactly when \<open>page > 1\<close>, so both flags
  are false on the first page; and on every store they return without error, with an
  empty \<open>data\<close> whenever the page lies beyond \<open>totalPages\<close>.
\<close>

theorem list_empty_and_beyond:
  assumes "PaginationInputSchema pg"
    and "pg = (case lp_pagination pinp of None \<Rightarrow> no_pagination | Some x \<Rightarrow> x)"
    and "pg = (case lu_pagination uinp of None \<Rightarrow> no_pagination | Some x \<Rightarrow> x)"
    and "page = (case pg_page pg of None \<Rightarrow> 1 | Some n \<Rightarrow> n)"
  shows "listPosts [] pinp =
           Inr \<lparr> out_data = [], out_total = 0, out_page = page, out_totalPages = 0,
                 out_hasNextPage = False, out_hasPreviousPage = (1 < page) \<rparr> \<and>
         listUsers [] uinp =
           Inr \<lparr> out_data = [], out_total = 0, out_page = page, out_totalPages = 0,
                 out_hasNextPage = False, out_hasPreviousPage = (1 < page) \<rparr> \<and>
         (\<exists>r. listPosts posts pinp = Inr r \<and> (out_totalPages r < page \<longrightarrow> out_data r = [])) \<and>
         (\<exists>r. listUsers users uinp = Inr r \<and> (out_totalPages r < page \<longrightarrow> out_data r = []))"
proof -
  have pl: "1 \<le> page" "1 \<le> (case pg_limit pg of None \<Rightarrow> 20 | Some l \<Rightarrow> l)"
    using valid_page_limit [OF assms(1)] assms(4) by simp_all
  have a: "listPosts [] pinp =
           Inr \<lparr> out_data = [], out_total = 0, out_page = page, out_totalPages = 0,
                 out_hasNextPage = False, out_hasPreviousPage = (1 < page) \<rparr>"
    using pl paginate_empty [OF pl, of toPublicPost]
    by (simp add: listPosts_eq [OF assms(1,2)] store_values_def filterPosts_empty
        sortPosts_empty assms(4))
  have b: "listUsers [] uinp =
           Inr \<lparr> out_data = [], out_total = 0, out_page = page, out_totalPages = 0,
                 out_hasNextPage = False, out_hasPreviousPage = (1 < page) \<rparr>"
    using pl paginate_empty [OF pl, of toPublicUser]
    by (simp add: listUsers_eq [OF assms(1,3)] store_values_def filterUsers_empty
        sortUsers_empty assms(4))
  have c: "\<exists>r. listPosts posts pinp = Inr r \<and> (out_totalPages r < page \<longrightarrow> out_data r = [])"
    using paginate_beyond [OF pl, of toPublicPost]
    by (simp add: listPosts_eq [OF assms(1,2)] assms(4))
  have d: "\<exists>r. listUsers users uinp = Inr r \<and> (out_totalPages r < page \<longrightarrow> out_data r = [])"
    using paginate_beyond [OF pl, of toPublicUser]
    by (simp add: listUsers_eq [OF assms(1,3)] assms(4))
  show ?thesis using a b c d by blast
qed

theorem list_empty_and_beyond_witness:
  "PaginationInputSchema page_two \<and>
   listPosts [] \<lparr>lp_pagination = Some page_two, lp_filters = None\<rparr> =
     Inr \<lparr> out_data = [], out_total = 0, out_page = 2, out_totalPages = 0,
           out_hasNextPage = False, out_hasPreviousPage = True \<rparr> \<and>
   (\<exists>r. listPosts initial_posts \<lparr>lp_pagination = Some page_two, lp_filters = None\<rparr> = Inr r \<and>
      out_total r = 2 \<and> out_totalPages r = 1 \<and> out_data r = []) \<and>
   (\<exists>r. listUsers initial_users \<lparr>lu_pagination = Some page_two, lu_filters = None\<rparr> = Inr r \<and>
      out_total r = 2 \<and> out_totalPages r = 1 \<and> out_data r = [])"
proof -
  let ?pinp = "\<lparr>lp_pagination = Some page_two, lp_filters = None\<rparr>"
  let ?uinp = "\<lparr>lu_pagination = Some page_two, lu_filters = None\<rparr>"
  have t: "listPosts [] ?pinp =
           Inr \<lparr> out_data = [], out_total = 0, out_page = 2, out_totalPages = 0,
                 out_hasNextPage = False, out_hasPreviousPage = (1 < (2::int)) \<rparr> \<and>
         listUsers [] ?uinp =
           Inr \<lparr> out_data = [], out_total = 0, out_page = 2, out_totalPages = 0,
                 out_hasNextPage = False, out_hasPreviousPage = (1 < (2::int)) \<rparr> \<and>
         (\<exists>r. listPosts initial_posts ?pinp = Inr r \<and> (out_totalPages r < 2 \<longrightarrow> out_data r = [])) \<and>
         (\<exists>r. listUsers initial_users ?uinp = Inr r \<and> (out_totalPages r < 2 \<longrightarrow> out_data r = []))"
    by (rule list_empty_and_beyond [OF page_two_valid]) (simp_all add: page_two_def)
  have p: "\<exists>r. listPosts initial_posts ?pinp = Inr r \<and> out_total r = 2 \<and> out_totalPages r = 1"
    by (simp add: listPosts_eq [OF page_two_valid] out_total_paginate out_totalPages_paginate
        length_sortPosts filterPosts_none store_values_def initial_posts_entries ceil_div_def
        page_two_def)
  have u: "\<exists>r. listUsers initial_users ?uinp = Inr r \<and> out_total r = 2 \<and> out_totalPages r = 1"
    by (simp add: listUsers_eq [OF page_two_valid] out_total_paginate out_totalPages_paginate
        length_sortUsers filterUsers_none store_values_def initial_users_entries ceil_div_def
        page_two_def)
  show ?thesis using t p u page_two_valid by auto
qed

text \<open>
  The claim as it was stated fails on the second page of an empty store: \<open>hasPreviousPage\<close>
  is \<open>page > 1\<close>, whatever the store holds.
\<close>

theorem empty_store_second_page:
  "listPosts [] \<lparr>lp_pagination = Some page_two, lp_filters = None\<rparr> =
     Inr \<lparr> out_data = [], out_total = 0, out_page = 2, out_totalPages = 0,
           out_hasNextPage = False, out_hasPreviousPage = True \<rparr>"
  by (simp add: listPosts_def Let_def page_two_def PaginationInputSchema_def store_values_def
      filterPosts_def filter_if_def no_post_filters_def sortPosts_def array_sort_def
      paginate_def ceil_div_def slice_def)

section \<open>The order of a page\<close>





lemma compareFn_values:
  "compareFn so a b =
     (if js_gt a b then (if so = Asc then 1 else - 1) else (if so = Asc then - 1 else 1))"
  by (simp add: compareFn_def Let_def)















lemma seed_createdAt: "post_createdAt first_post = 1000" "post_createdAt second_post = 1000"
  by (simp_all add: first_post_def second_post_def createMockPost_def Let_def)

text \<open>
  In this model of \<open>sort\<close> the two seeded posts, which have the same \<open>createdAt\<close>, keep
  their order when sorted descending and change places when sorted ascending.
\<close>

lemma seeded_ties:
  "sortPosts ''createdAt'' Desc [first_post, second_post] = [first_post, second_post]"
  "sortPosts ''createdAt'' Asc [first_post, second_post] = [second_post, first_post]"
  by (simp_all add: sortPosts_def array_sort_def compareFn_values js_gt_def post_field_def
      seed_createdAt)




section \<open>Slugs\<close>

lemma toLowerChar_not_upper: "\<not> is_upper (toLowerChar c)"
  by (auto simp: toLowerChar_def is_upper_def split: option.splits if_splits)

lemma az09_iff_alnum: "\<not> is_upper c \<Longrightarrow> is_az09 c \<longleftrightarrow> is_alnum c"
  by (auto simp: is_az09_def is_alnum_def is_lower_def is_digit_def)

lemma hyphen_not_az09: "\<not> is_az09 (CHR ''-'')"
  by (simp add: is_az09_def)

lemma az09_or_hyphen_keep: "is_az09 c \<Longrightarrow> az09_or_hyphen c = c"
  by (simp add: az09_or_hyphen_def)

lemma az09_or_hyphen_other: "\<not> is_az09 c \<Longrightarrow> az09_or_hyphen c = CHR ''-''"
  by (simp add: az09_or_hyphen_def)

lemma squeeze_keep: "c \<noteq> CHR ''-'' \<Longrightarrow> squeeze_hyphens (c # cs) = c # squeeze_hyphens cs"
  by (cases cs) auto

lemma squeeze_run:
  "squeeze_hyphens (CHR ''-'' # map az09_or_hyphen cs)
     = CHR ''-'' # squeeze_hyphens (map az09_or_hyphen (dropWhile (\<lambda>d. \<not> is_az09 d) cs))"
proof (induction cs)
  case Nil
  then show ?case by simp
next
  case (Cons d ds)
  show ?case
  proof (cases "is_az09 d")
    case True
    then have "d \<noteq> CHR ''-''" using hyphen_not_az09 by auto
    then show ?thesis using True by (simp add: az09_or_hyphen_keep squeeze_keep)
  next
    case False
    then show ?thesis using Cons by (simp add: az09_or_hyphen_other)
  qed
qed

lemma replace_non_alnum_squeeze:
  "replace_non_alnum s = squeeze_hyphens (map az09_or_hyphen s)"
proof (induction s rule: replace_non_alnum.induct)
  case 1
  then show ?case by simp
next
  case (2 c cs)
  show ?case
  proof (cases "is_az09 c")
    case True
    then have "c \<noteq> CHR ''-''" using hyphen_not_az09 by auto
    then show ?thesis using True 2 by (simp add: az09_or_hyphen_keep squeeze_keep)
  next
    case False
    then show ?thesis using 2 squeeze_run [of cs] by (simp add: az09_or_hyphen_other)
  qed
qed

lemma strip_trailing_rev:
  "strip_trailing s = rev (dropWhile (\<lambda>c. c = CHR ''-'') (rev s))"
proof (induction s)
  case Nil
  then show ?case by simp
next
  case (Cons c cs)
  show ?case
  proof (cases "list_all (\<lambda>d. d = CHR ''-'') cs")
    case True
    then have "dropWhile (\<lambda>c. c = CHR ''-'') (rev cs @ [c]) = dropWhile (\<lambda>c. c = CHR ''-'') [c]"
      by (intro dropWhile_append2) (auto simp: list_all_iff)
    then show ?thesis using True Cons by (auto simp: list_all_iff)
  next
    case False
    then obtain x where "x \<in> set (rev cs)" "x \<noteq> CHR ''-''" by (auto simp: list_all_iff)
    then have "dropWhile (\<lambda>c. c = CHR ''-'') (rev cs @ [c])
        = dropWhile (\<lambda>c. c = CHR ''-'') (rev cs) @ [c]"
      by (intro dropWhile_append1) auto
    then show ?thesis using False Cons by simp
  qed
qed

lemma map_hyphen_lower:
  "map az09_or_hyphen (toLowerCase t) = map hyphen_for (toLowerCase t)"
  by (simp add: toLowerCase_def az09_or_hyphen_def hyphen_for_def az09_iff_alnum
      toLowerChar_not_upper)

lemma generateSlug_spec: "generateSlug title = slug_spec title"
  by (simp add: generateSlug_def slug_spec_def strip_hyphens_def strip_trailing_rev
      replace_non_alnum_squeeze map_hyphen_lower)

lemma generateSlug_hello: "generateSlug ''Hello World'' = ''hello-world''"
  by (simp add: generateSlug_def toLowerCase_def toLowerChar_def is_az09_def strip_hyphens_def)

lemma hello_world_valid: "CreatePostInputSchema hello_world"
  by (simp add: CreatePostInputSchema_def hello_world_def)

lemma createPost_without_slug:
  assumes "CreatePostInputSchema input" and "\<not> truthy (in_slug input)"
  shows "createPost st input authorId newId now =
           (Inr (fst (createMockPost st input authorId newId now)),
            snd (createMockPost st input authorId newId now))"
    and "post_slug (fst (createMockPost st input authorId newId now))
           = generateSlug (in_title input)"
  using assms by (simp_all add: createPost_def createMockPost_def Let_def)

text \<open>
  Claim C8. In every store, creating a post from \<open>{title: "Hello World", content:
  "0123456789"}\<close> succeeds and gives a post with slug \<open>hello-world\<close>, status draft,
  \<open>published\<close> false and \<open>viewCount\<close> 0. For every title, the generated slug is the slug
  as the specification words it, and it is the slug of the post that \<open>createPost\<close> makes
  from any accepted input that gives no slug.
\<close>

theorem hello_world_slug:
  "(\<exists>p st'. createPost st hello_world authorId newId now = (Inr p, st') \<and>
      post_slug p = ''hello-world'' \<and> post_status p = Draft \<and> \<not> post_published p \<and>
      post_viewCount p = 0 \<and> post_title p = ''Hello World'' \<and>
      store_get st' newId = Some p) \<and>
   generateSlug title = slug_spec title \<and>
   (CreatePostInputSchema input \<and> \<not> truthy (in_slug input) \<longrightarrow>
      (\<exists>p st'. createPost st input authorId newId now = (Inr p, st') \<and>
         post_slug p = slug_spec (in_title input)))"
proof (intro conjI impI)
  have s: "\<not> truthy (in_slug hello_world)" by (simp add: hello_world_def)
  let ?p = "fst (createMockPost st hello_world authorId newId now)"
  let ?st = "snd (createMockPost st hello_world authorId newId now)"
  have "createPost st hello_world authorId newId now = (Inr ?p, ?st)"
    using hello_world_valid s by (rule createPost_without_slug)
  moreover have "post_slug ?p = ''hello-world''"
    using createPost_without_slug(2) [OF hello_world_valid s, of st authorId newId now]
    by (simp add: generateSlug_hello hello_world_def)
  moreover have "post_status ?p = Draft \<and> \<not> post_published ?p \<and> post_viewCount ?p = 0 \<and>
      post_title ?p = ''Hello World'' \<and> store_get ?st newId = Some ?p"
    by (simp add: createMockPost_def Let_def hello_world_def store_get_set)
  ultimately show "\<exists>p st'. createPost st hello_world authorId newId now = (Inr p, st') \<and>
      post_slug p = ''hello-world'' \<and> post_status p = Draft \<and> \<not> post_published p \<and>
      post_viewCount p = 0 \<and> post_title p = ''Hello World'' \<and>
      store_get st' newId = Some p"
    by blast
next
  show "generateSlug title = slug_spec title" by (rule generateSlug_spec)
next
  assume "CreatePostInputSchema input \<and> \<not> truthy (in_slug input)"
  then have v: "CreatePostInputSchema input" and s: "\<not> truthy (in_slug input)" by blast+
  show "\<exists>p st'. createPost st input authorId newId now = (Inr p, st') \<and>
         post_slug p = slug_spec (in_title input)"
    using createPost_without_slug [OF v s, of st authorId newId now]
    by (simp add: generateSlug_spec)
qed

theorem hello_world_slug_witness:
  "CreatePostInputSchema hello_world \<and> \<not> truthy (in_slug hello_world) \<and>
   slug_spec ''Hello World'' = ''hello-world'' \<and>
   (\<exists>p st'. createPost initial_posts hello_world ''b0000000-0000-4000-8000-000000000003'' ''a0000000-0000-4000-8000-000000000003'' 2000 = (Inr p, st') \<and>
      post_slug p = ''hello-world'')"
proof -
  have s: "\<not> truthy (in_slug hello_world)" by (simp add: hello_world_def)
  note t = hello_world_slug [where input = hello_world and st = initial_posts
      and authorId = "''b0000000-0000-4000-8000-000000000003''" and newId = "''a0000000-0000-4000-8000-000000000003''" and now = 2000
      and title = "''Hello World''"]
  have e: "slug_spec ''Hello World'' = ''hello-world''"
    using t by (simp add: generateSlug_hello)
  have "\<exists>p st'. createPost initial_posts hello_world ''b0000000-0000-4000-8000-000000000003'' ''a0000000-0000-4000-8000-000000000003'' 2000 = (Inr p, st') \<and>
      post_slug p = slug_spec (in_title hello_world)"
    using t hello_world_valid s by blast
  then show ?thesis using hello_world_valid s e by (simp add: hello_world_def)
qed

lemma same_title_valid: "CreatePostInputSchema same_title"
  by (simp add: CreatePostInputSchema_def same_title_def)

lemma same_slug_valid: "CreatePostInputSchema same_slug"
  by (simp add: CreatePostInputSchema_def same_slug_def same_title_def valid_slug_def
      is_slug_char_def is_az09_def)

lemma seed_slugs:
  "map post_slug (store_values initial_posts)
     = [''getting-started-with-orpc'', ''building-type-safe-apis'']"
  by (simp add: store_values_def initial_posts_entries first_post_def second_post_def
      createMockPost_def Let_def seed_post_1_def seed_post_2_def generateSlug_def
      toLowerCase_def toLowerChar_def is_az09_def strip_hyphens_def)

text \<open>
  Claim C1 does not hold of the code. The store at start-up has the slugs
  \<open>getting-started-with-orpc\<close> and \<open>building-type-safe-apis\<close>. A new post with the title
  of the first one and no slug is accepted, and the store then has the first slug twice:
  \<open>createPost\<close> looks for an existing slug only when the input gives one, as it does for
  the same input with the slug written out, which is refused.
\<close>

theorem generated_slug_not_checked:
  "CreatePostInputSchema same_title \<and> CreatePostInputSchema same_slug \<and>
   map post_slug (store_values initial_posts)
     = [''getting-started-with-orpc'', ''building-type-safe-apis''] \<and>
   fst (createPost initial_posts same_title ''b0000000-0000-4000-8000-000000000003'' ''a0000000-0000-4000-8000-000000000003'' 2000)
     = Inr (fst (createMockPost initial_posts same_title ''b0000000-0000-4000-8000-000000000003'' ''a0000000-0000-4000-8000-000000000003'' 2000)) \<and>
   map post_slug (store_values (snd (createPost initial_posts same_title ''b0000000-0000-4000-8000-000000000003'' ''a0000000-0000-4000-8000-000000000003'' 2000)))
     = [''getting-started-with-orpc'', ''building-type-safe-apis'', ''getting-started-with-orpc''] \<and>
   createPost initial_posts same_slug ''b0000000-0000-4000-8000-000000000003'' ''a0000000-0000-4000-8000-000000000003'' 2000
     = (Inl (Error ''Slug already exists''), initial_posts)"
proof -
  have s: "\<not> truthy (in_slug same_title)" by (simp add: same_title_def)
  have g: "generateSlug ''Getting Started with ORPC'' = ''getting-started-with-orpc''"
    by (simp add: generateSlug_def toLowerCase_def toLowerChar_def is_az09_def strip_hyphens_def)
  have a: "createPost initial_posts same_title ''b0000000-0000-4000-8000-000000000003'' ''a0000000-0000-4000-8000-000000000003'' 2000 =
      (Inr (fst (createMockPost initial_posts same_title ''b0000000-0000-4000-8000-000000000003'' ''a0000000-0000-4000-8000-000000000003'' 2000)),
       snd (createMockPost initial_posts same_title ''b0000000-0000-4000-8000-000000000003'' ''a0000000-0000-4000-8000-000000000003'' 2000))"
    using same_title_valid s by (rule createPost_without_slug)
  have b: "map post_slug (store_values
        (snd (createMockPost initial_posts same_title ''b0000000-0000-4000-8000-000000000003'' ''a0000000-0000-4000-8000-000000000003'' 2000)))
      = [''getting-started-with-orpc'', ''building-type-safe-apis'', ''getting-started-with-orpc'']"
    using seed_slugs
    by (simp add: createMockPost_def Let_def store_values_def initial_posts_entries
        same_title_def g)
  have c: "createPost initial_posts same_slug ''b0000000-0000-4000-8000-000000000003'' ''a0000000-0000-4000-8000-000000000003'' 2000
      = (Inl (Error ''Slug already exists''), initial_posts)"
    using same_slug_valid seed_slugs
    by (simp add: createPost_def same_slug_def same_title_def store_values_def
        initial_posts_entries)
  show ?thesis
    using a b c same_title_valid same_slug_valid seed_slugs by simp
qed

end
